theory Spec2Isabelle
  imports Complex_Main
begin

section \<open>Numbers, vectors and scene objects\<close>

text \<open>
  JavaScript numbers are modelled as real numbers: rounding is not modelled. Where the
  code can produce \<^verbatim>\<open>NaN\<close> (the remainder by a zero cycle duration in
  \<^verbatim>\<open>updateSunTracking\<close>) the value has type \<open>jsnum\<close>, with \<open>None\<close> for
  \<^verbatim>\<open>NaN\<close>.
\<close>

type_synonym jsnum = "real option"

type_synonym vector3 = "real \<times> real \<times> real"

type_synonym color = "real \<times> real \<times> real"

text \<open>
  An \<^verbatim>\<open>Object3D\<close> of the scene graph: its identity (the model of reference equality,
  \<^verbatim>\<open>child !== sky\<close>) and its \<^verbatim>\<open>visible\<close> flag. The entries of
  \<^verbatim>\<open>scene.children\<close> are distinct objects, so each list entry carries its own flag.
\<close>

record object3D =
  oid :: nat
  visible :: bool

section \<open>SkyEnvironmentGenerator\<close>

text \<open>
  The generator owns a cube render target (\<open>None\<close> is \<^verbatim>\<open>null\<close>; the target is
  identified by its edge width) and a cube camera, of which the position is kept.
  \<open>disposedTargets\<close> logs the calls of \<^verbatim>\<open>renderTarget.dispose()\<close>.
\<close>

record skyEnvironmentGenerator =
  renderTarget :: "nat option"
  cubeCameraPosition :: "vector3 option"
  disposedTargets :: "nat list"

text \<open>
  \<^verbatim>\<open>this.cubeCamera.update(this.renderer, scene)\<close> is a call into the rendering library.
  The model takes its behaviour as a parameter: given the children of the scene as they are
  when the call is made, the call either completes or throws.
\<close>

datatype stepResult = Completes | Throws

type_synonym cubeCameraUpdate = "object3D list \<Rightarrow> stepResult"

text \<open>How a call ends: with a value, or with an exception passing to the caller.\<close>

datatype 'a completion = Returned 'a | Threw

text \<open>
  \<^verbatim>\<open>originalVisible\<close> is a sparse JavaScript array: the first \<^verbatim>\<open>forEach\<close>
  assigns index \<open>i\<close> for every child other than the sky and leaves a hole at the
  sky's index. Reading a hole, or an index past the end, gives \<^verbatim>\<open>undefined\<close>
  (\<open>None\<close>).
\<close>

definition captureVisible :: "nat \<Rightarrow> object3D list \<Rightarrow> bool option list" where
  "captureVisible sky cs = map (\<lambda>child. if oid child \<noteq> sky then Some (visible child) else None) cs"

definition hideOthers :: "nat \<Rightarrow> object3D list \<Rightarrow> object3D list" where
  "hideOthers sky cs = map (\<lambda>child. if oid child \<noteq> sky then child\<lparr>visible := False\<rparr> else child) cs"

definition originalAt :: "bool option list \<Rightarrow> nat \<Rightarrow> bool option" where
  "originalAt originalVisible index =
     (if index < length originalVisible then originalVisible ! index else None)"

definition restoreVisible :: "nat \<Rightarrow> bool option list \<Rightarrow> object3D list \<Rightarrow> object3D list" where
  "restoreVisible sky originalVisible cs =
     map (\<lambda>(index, child).
            if oid child \<noteq> sky
            then (case originalAt originalVisible index of
                    Some v \<Rightarrow> child\<lparr>visible := v\<rparr>
                  | None \<Rightarrow> child)
            else child)
         (enumerate 0 cs)"

text \<open>
  \<^verbatim>\<open>generateEnvironmentMap(sky, scene, cameraPosition, size = 512)\<close>. The result is the
  generator, the children of the scene as the call leaves them, and the completion: the
  render target returned, or the exception of the cube camera's update. There is no
  \<^verbatim>\<open>try\<close> in the source, so an exception leaves the function before the second
  \<^verbatim>\<open>forEach\<close>.
\<close>

definition generateEnvironmentMap ::
  "cubeCameraUpdate \<Rightarrow> skyEnvironmentGenerator \<Rightarrow> nat \<Rightarrow> object3D list \<Rightarrow> vector3 \<Rightarrow> nat
     \<Rightarrow> skyEnvironmentGenerator \<times> object3D list \<times> nat completion" where
  "generateEnvironmentMap cubeUpdate gen sky cs cameraPosition edge =
     (let gen1 = (if renderTarget gen = None \<or> renderTarget gen \<noteq> Some edge
                  then gen\<lparr>renderTarget := Some edge,
                           disposedTargets :=
                             (case renderTarget gen of
                                Some old \<Rightarrow> disposedTargets gen @ [old]
                              | None \<Rightarrow> disposedTargets gen)\<rparr>
                  else gen);
          gen2 = gen1\<lparr>cubeCameraPosition := Some cameraPosition\<rparr>;
          originalVisible = captureVisible sky cs;
          hidden = hideOthers sky cs
      in (case cubeUpdate hidden of
            Throws \<Rightarrow> (gen2, hidden, Threw)
          | Completes \<Rightarrow> (gen2, restoreVisible sky originalVisible hidden, Returned edge)))"

text \<open>\<^verbatim>\<open>dispose()\<close> releases the target and keeps the reference.\<close>

definition dispose_generator :: "skyEnvironmentGenerator \<Rightarrow> skyEnvironmentGenerator" where
  "dispose_generator gen =
     (case renderTarget gen of
        Some t \<Rightarrow> gen\<lparr>disposedTargets := disposedTargets gen @ [t]\<rparr>
      | None \<Rightarrow> gen)"

section \<open>EnvironmentConfiguration\<close>

text \<open>
  The type \<^verbatim>\<open>EnvironmentConfiguration\<close> of composer.ts. An optional field is an
  \<open>option\<close>, \<open>None\<close> when the field is omitted. The three members of the skybox union
  are the constructors of \<open>skyboxSource\<close>; the third member's key
  \<^verbatim>\<open>atmospheric\<close> is optional itself, so \<open>NoSource\<close> is the skybox object with
  none of the three keys and \<open>Atmospheric None\<close> has the key with an undefined value.
\<close>

record atmosphericConfiguration =
  cfg_turbidity :: "real option"
  cfg_rayleigh :: "real option"
  cfg_mieCoefficient :: "real option"
  cfg_mieDirectionalG :: "real option"
  cfg_sunPosition :: "vector3 option"

datatype skyboxSource =
    HdrJpgUrl string
  | HdrUrl string
  | Atmospheric "atmosphericConfiguration option"
  | NoSource

record skyboxConfiguration =
  cfg_skyboxIntensity :: "real option"
  cfg_skyboxBlurriness :: "real option"
  cfg_skyboxAzimuthalAngle :: "real option"
  cfg_skyboxPolarAngle :: "real option"
  cfg_source :: skyboxSource

record trackingConfiguration =
  cfg_enabled :: "bool option"
  cfg_speed :: "real option"
  cfg_cycleDuration :: "real option"

record sunConfiguration =
  cfg_sunIntensity :: "real option"
  cfg_sunPolarAngle :: "real option"
  cfg_sunAzimuthalAngle :: "real option"
  cfg_tracking :: "trackingConfiguration option"

record fogConfiguration =
  cfg_fogNear :: "real option"
  cfg_fogFar :: "real option"
  cfg_fogColor :: "color option"

text \<open>
  \<open>cfg_envMap\<close>, \<open>cfg_postProcessing\<close> and \<open>cfg_ambientLight\<close> are objects with the one
  optional field \<^verbatim>\<open>intensity\<close> (\<^verbatim>\<open>bloomIntensity\<close>): the outer \<open>option\<close> is the
  object, the inner one its field.
\<close>

record environmentConfiguration =
  cfg_groundPlane :: "bool option"
  cfg_skybox :: "skyboxConfiguration option"
  cfg_envMap :: "real option option"
  cfg_sun :: "sunConfiguration option"
  cfg_fog :: "fogConfiguration option"
  cfg_postProcessing :: "real option option"
  cfg_ambientLight :: "real option option"

text \<open>
  The optional chains of the source, such as
  \<^verbatim>\<open>this.environmentConfiguration?.fog?.fogNear\<close>. The configuration of the composer is
  optional as well. \<^verbatim>\<open>typeof x === "number"\<close> is \<open>x \<noteq> None\<close>.
\<close>

definition skyboxOf :: "environmentConfiguration option \<Rightarrow> skyboxConfiguration option" where
  "skyboxOf cfg = Option.bind cfg cfg_skybox"

definition envMapIntensityOf :: "environmentConfiguration option \<Rightarrow> real option" where
  "envMapIntensityOf cfg = Option.bind (Option.bind cfg cfg_envMap) id"

definition skyboxIntensityOf :: "environmentConfiguration option \<Rightarrow> real option" where
  "skyboxIntensityOf cfg = Option.bind (skyboxOf cfg) cfg_skyboxIntensity"

definition skyboxBlurrinessOf :: "environmentConfiguration option \<Rightarrow> real option" where
  "skyboxBlurrinessOf cfg = Option.bind (skyboxOf cfg) cfg_skyboxBlurriness"

definition skyboxAzimuthalAngleOf :: "environmentConfiguration option \<Rightarrow> real option" where
  "skyboxAzimuthalAngleOf cfg = Option.bind (skyboxOf cfg) cfg_skyboxAzimuthalAngle"

definition skyboxPolarAngleOf :: "environmentConfiguration option \<Rightarrow> real option" where
  "skyboxPolarAngleOf cfg = Option.bind (skyboxOf cfg) cfg_skyboxPolarAngle"

text \<open>
  The descriptor \<^verbatim>\<open>skybox.atmospheric\<close> that \<^verbatim>\<open>updateAtmosphericSky\<close> reads
  under \<^verbatim>\<open>this.environmentConfiguration?.skybox && "atmospheric" in skybox\<close> and
  \<^verbatim>\<open>if (atmospheric)\<close>.
\<close>

definition atmosphericOf :: "environmentConfiguration option \<Rightarrow> atmosphericConfiguration option" where
  "atmosphericOf cfg =
     (case skyboxOf cfg of
        Some sb \<Rightarrow> (case cfg_source sb of Atmospheric a \<Rightarrow> a | _ \<Rightarrow> None)
      | None \<Rightarrow> None)"

definition sunOf :: "environmentConfiguration option \<Rightarrow> sunConfiguration option" where
  "sunOf cfg = Option.bind cfg cfg_sun"

definition sunIntensityOf :: "environmentConfiguration option \<Rightarrow> real option" where
  "sunIntensityOf cfg = Option.bind (sunOf cfg) cfg_sunIntensity"

definition sunAzimuthalAngleOf :: "environmentConfiguration option \<Rightarrow> real option" where
  "sunAzimuthalAngleOf cfg = Option.bind (sunOf cfg) cfg_sunAzimuthalAngle"

definition sunPolarAngleOf :: "environmentConfiguration option \<Rightarrow> real option" where
  "sunPolarAngleOf cfg = Option.bind (sunOf cfg) cfg_sunPolarAngle"

definition trackingOf :: "environmentConfiguration option \<Rightarrow> trackingConfiguration option" where
  "trackingOf cfg = Option.bind (sunOf cfg) cfg_tracking"

definition fogOf :: "environmentConfiguration option \<Rightarrow> fogConfiguration option" where
  "fogOf cfg = Option.bind cfg cfg_fog"

definition fogNearOf :: "environmentConfiguration option \<Rightarrow> real option" where
  "fogNearOf cfg = Option.bind (fogOf cfg) cfg_fogNear"

definition fogFarOf :: "environmentConfiguration option \<Rightarrow> real option" where
  "fogFarOf cfg = Option.bind (fogOf cfg) cfg_fogFar"

definition fogColorOf :: "environmentConfiguration option \<Rightarrow> color option" where
  "fogColorOf cfg = Option.bind (fogOf cfg) cfg_fogColor"

definition bloomIntensityOf :: "environmentConfiguration option \<Rightarrow> real option" where
  "bloomIntensityOf cfg = Option.bind (Option.bind cfg cfg_postProcessing) id"

definition ambientLightIntensityOf :: "environmentConfiguration option \<Rightarrow> real option" where
  "ambientLightIntensityOf cfg = Option.bind (Option.bind cfg cfg_ambientLight) id"

section \<open>The tweakpane values\<close>

text \<open>
  \<^verbatim>\<open>envValues\<close> and \<^verbatim>\<open>sunValues\<close> of environmentFolder.ts are module-level objects
  that the composer reads and writes; they are part of the state. The nested objects
  \<^verbatim>\<open>atmosphericSky\<close>, \<^verbatim>\<open>ambientLight\<close> and \<^verbatim>\<open>fog\<close> are flattened. The two sun
  angles are written by \<^verbatim>\<open>updateSunTracking\<close> and can hold \<^verbatim>\<open>NaN\<close>.
\<close>

record env_values =
  skyboxAzimuthalAngle :: real
  skyboxPolarAngle :: real
  envMapIntensity :: real
  skyboxIntensity :: real
  skyboxBlurriness :: real
  turbidity :: real
  rayleigh :: real
  mieCoefficient :: real
  mieDirectionalG :: real
  ambientLightIntensity :: real
  ambientLightColor :: color
  fogNear :: real
  fogFar :: real
  fogColor :: color

record sun_values =
  sunAzimuthalAngle :: jsnum
  sunPolarAngle :: jsnum
  sunIntensity :: real

definition initialEnvValues :: env_values where
  "initialEnvValues =
     \<lparr>skyboxAzimuthalAngle = 0, skyboxPolarAngle = 0, envMapIntensity = 1,
      skyboxIntensity = 1, skyboxBlurriness = 0,
      turbidity = 35 / 10, rayleigh = 25 / 10, mieCoefficient = 8 / 1000,
      mieDirectionalG = 85 / 100,
      ambientLightIntensity = 0, ambientLightColor = (1, 1, 1),
      fogNear = 1000, fogFar = 1000, fogColor = (7 / 10, 7 / 10, 7 / 10)\<rparr>"

definition initialSunValues :: sun_values where
  "initialSunValues =
     \<lparr>sunAzimuthalAngle = Some 219, sunPolarAngle = Some (- 37), sunIntensity = 72 / 10\<rparr>"

section \<open>Scene, sky, sun and composer state\<close>

text \<open>
  A texture is known by its identity only: an environment map that a decode promise
  resolved with, or the texture of the generator's cube render target of a given width.
\<close>

datatype texture = EnvMapTexture nat | RenderTargetTexture nat

record Fog =
  fog_color :: color
  fog_near :: real
  fog_far :: real

record Scene =
  children :: "object3D list"
  environment :: "texture option"
  background :: "texture option"
  environmentIntensity :: real
  backgroundIntensity :: real
  backgroundBlurriness :: real
  environmentRotation :: vector3
  backgroundRotation :: vector3
  fog :: "Fog option"

text \<open>The uniforms of the sky's shader material that the composer writes.\<close>

record skyUniforms =
  u_turbidity :: real
  u_rayleigh :: real
  u_mieCoefficient :: real
  u_mieDirectionalG :: real
  u_sunPosition :: "jsnum \<times> jsnum \<times> jsnum"

record Sky =
  sky_oid :: nat
  uniforms :: skyUniforms

text \<open>
  Modelled from the spec: the class \<^verbatim>\<open>Sun\<close> (\<^verbatim>\<open>../sun/Sun\<close>) is not among the
  sources. The discrete sun object is a derived view of the sun state, so the model keeps
  the last argument of each of its setters \<^verbatim>\<open>setIntensity\<close>,
  \<^verbatim>\<open>setAzimuthalAngle\<close> and \<^verbatim>\<open>setPolarAngle\<close> (the angles in radians).
\<close>

record Sun =
  sun_oid :: nat
  intensity :: jsnum
  azimuthalAngleRad :: jsnum
  polarAngleRad :: jsnum

definition setIntensity :: "jsnum \<Rightarrow> Sun \<Rightarrow> Sun" where
  "setIntensity v s = s\<lparr>intensity := v\<rparr>"

definition setAzimuthalAngle :: "jsnum \<Rightarrow> Sun \<Rightarrow> Sun" where
  "setAzimuthalAngle v s = s\<lparr>azimuthalAngleRad := v\<rparr>"

definition setPolarAngle :: "jsnum \<Rightarrow> Sun \<Rightarrow> Sun" where
  "setPolarAngle v s = s\<lparr>polarAngleRad := v\<rparr>"

record AmbientLight =
  light_oid :: nat
  light_color :: color
  light_intensity :: real

text \<open>The passes of the \<^verbatim>\<open>EffectComposer\<close>, and what a frame is drawn with.\<close>

datatype pass =
    RenderPass | NormalPass | PpssaoPass | N8aoPass | FxaaPass | BloomPass
  | ToneMappingPass | BcsPass | GaussGrainPass

datatype renderCall =
    RendererRender
  | EffectComposerRender "pass list"

datatype loader = HDRJPGLoader | RGBELoader

text \<open>
  The fields of \<^verbatim>\<open>Composer\<close> that the modelled methods use, with the tweakpane values.
  A promise is identified by the number of promises created before it, which models the
  reference comparison \<^verbatim>\<open>latestPromise !== hdrJPGPromise\<close>. \<open>startedLoads\<close> logs the
  calls of \<^verbatim>\<open>loadHDRJPG\<close> and \<^verbatim>\<open>loadHDRi\<close>, \<open>rendered\<close> the draw calls that
  \<^verbatim>\<open>render\<close> issues, and \<open>nextOid\<close> is the identity of the next object created.
\<close>

record composer =
  scene :: Scene
  cameraPosition :: vector3
  toneMappingExposure :: real
  toneMapping :: nat
  rendered :: "renderCall list"
  effectComposerPasses :: "pass list"
  bloomEffectIntensity :: real
  ambientLight :: "AmbientLight option"
  environmentConfiguration :: "environmentConfiguration option"
  src_hdrJpgUrl :: "string option"
  src_hdrUrl :: "string option"
  latestPromise :: "nat option"
  nextPromise :: nat
  startedLoads :: "(nat \<times> loader \<times> string) list"
  sky :: "Sky option"
  skyEnvironmentGenerator :: "skyEnvironmentGenerator option"
  sun :: "Sun option"
  spawnSun :: bool
  sunTrackingEnabled :: bool
  sunTrackingSpeed :: real
  sunCycleDuration :: real
  sunStartTime :: real
  envValues :: env_values
  sunValues :: sun_values
  extrasBloom :: real
  nextOid :: nat

text \<open>
  A method that can end with an exception gives the state it leaves in either case.
\<close>

datatype outcome = Done composer | Raised composer

fun stateOf :: "outcome \<Rightarrow> composer" where
  "stateOf (Done c) = c"
| "stateOf (Raised c) = c"

fun andThen :: "outcome \<Rightarrow> (composer \<Rightarrow> outcome) \<Rightarrow> outcome" where
  "andThen (Done c) f = f c"
| "andThen (Raised c) f = Raised c"

definition degToRad :: "real \<Rightarrow> real" where
  "degToRad degrees = degrees * (pi / 180)"

definition ACESFilmicToneMapping :: nat where
  "ACESFilmicToneMapping = 4"

text \<open>\<^verbatim>\<open>scene.add\<close> and \<^verbatim>\<open>scene.remove\<close>; a new object is visible.\<close>

definition sceneAdd :: "nat \<Rightarrow> Scene \<Rightarrow> Scene" where
  "sceneAdd obj sc = sc\<lparr>children := children sc @ [\<lparr>oid = obj, visible = True\<rparr>]\<rparr>"

definition sceneRemove :: "nat \<Rightarrow> Scene \<Rightarrow> Scene" where
  "sceneRemove obj sc = sc\<lparr>children := filter (\<lambda>child. oid child \<noteq> obj) (children sc)\<rparr>"

section \<open>Skybox loading\<close>

definition skyboxEuler :: "env_values \<Rightarrow> vector3" where
  "skyboxEuler ev = (degToRad (skyboxPolarAngle ev), degToRad (skyboxAzimuthalAngle ev), 0)"

definition updateSkyboxRotation :: "composer \<Rightarrow> composer" where
  "updateSkyboxRotation c =
     c\<lparr>scene := (scene c)\<lparr>backgroundRotation := skyboxEuler (envValues c),
                           environmentRotation := skyboxEuler (envValues c)\<rparr>\<rparr>"

definition applyEnvMap :: "texture \<Rightarrow> composer \<Rightarrow> composer" where
  "applyEnvMap envMap c =
     c\<lparr>scene := (scene c)\<lparr>environment := Some envMap,
                           environmentIntensity := envMapIntensity (envValues c),
                           environmentRotation := skyboxEuler (envValues c),
                           background := Some envMap,
                           backgroundIntensity := skyboxIntensity (envValues c),
                           backgroundBlurriness := skyboxBlurriness (envValues c),
                           backgroundRotation := skyboxEuler (envValues c)\<rparr>\<rparr>"

text \<open>
  \<^verbatim>\<open>useHDRJPG\<close> and \<^verbatim>\<open>useHDRI\<close> up to the registration of the
  \<^verbatim>\<open>then\<close> callback: the guard on the stored source, the start of the decode (a new
  promise), and the two assignments to \<^verbatim>\<open>skyboxState\<close>.
\<close>

definition useHDRJPG :: "string \<Rightarrow> composer \<Rightarrow> composer" where
  "useHDRJPG url c =
     (if src_hdrJpgUrl c = Some url then c
      else c\<lparr>startedLoads := startedLoads c @ [(nextPromise c, HDRJPGLoader, url)],
             nextPromise := Suc (nextPromise c),
             src_hdrJpgUrl := Some url,
             src_hdrUrl := None,
             latestPromise := Some (nextPromise c)\<rparr>)"

definition useHDRI :: "string \<Rightarrow> composer \<Rightarrow> composer" where
  "useHDRI url c =
     (if src_hdrUrl c = Some url then c
      else c\<lparr>startedLoads := startedLoads c @ [(nextPromise c, RGBELoader, url)],
             nextPromise := Suc (nextPromise c),
             src_hdrJpgUrl := None,
             src_hdrUrl := Some url,
             latestPromise := Some (nextPromise c)\<rparr>)"

text \<open>
  The \<^verbatim>\<open>then\<close> callback of promise \<open>p\<close>, run when the decode resolves with
  \<open>envMap\<close>; both methods register the same callback. A rejected promise runs no
  callback, and a promise that never settles runs none either.
\<close>

definition promiseResolved :: "nat \<Rightarrow> texture \<Rightarrow> composer \<Rightarrow> composer" where
  "promiseResolved p envMap c =
     (if latestPromise c \<noteq> Some p then c else applyEnvMap envMap c)"

text \<open>A skybox load call of either kind.\<close>

definition useSkybox :: "loader \<Rightarrow> string \<Rightarrow> composer \<Rightarrow> composer" where
  "useSkybox k url c = (case k of HDRJPGLoader \<Rightarrow> useHDRJPG url c | RGBELoader \<Rightarrow> useHDRI url c)"

section \<open>Fog, ambient light, bloom and skybox values\<close>

definition setFog :: "composer \<Rightarrow> composer" where
  "setFog c =
     (if fogFar (envValues c) = 0 then c\<lparr>scene := (scene c)\<lparr>fog := None\<rparr>\<rparr>
      else c\<lparr>scene := (scene c)\<lparr>fog := Some \<lparr>fog_color = fogColor (envValues c),
                                                 fog_near = fogNear (envValues c),
                                                 fog_far = fogFar (envValues c)\<rparr>\<rparr>\<rparr>)"

definition setAmbientLight :: "composer \<Rightarrow> composer" where
  "setAmbientLight c =
     (let sc = (case ambientLight c of
                  Some old \<Rightarrow> sceneRemove (light_oid old) (scene c)
                | None \<Rightarrow> scene c);
          light = \<lparr>light_oid = nextOid c,
                   light_color = ambientLightColor (envValues c),
                   light_intensity = ambientLightIntensity (envValues c)\<rparr>
      in c\<lparr>ambientLight := Some light,
            scene := sceneAdd (nextOid c) sc,
            nextOid := Suc (nextOid c)\<rparr>)"

definition updateFogValues :: "composer \<Rightarrow> composer" where
  "updateFogValues c =
     (let cfg = environmentConfiguration c;
          ev1 = (case fogNearOf cfg of
                   Some v \<Rightarrow> (envValues c)\<lparr>fogNear := v\<rparr> | None \<Rightarrow> envValues c);
          ev2 = (case fogFarOf cfg of Some v \<Rightarrow> ev1\<lparr>fogFar := v\<rparr> | None \<Rightarrow> ev1);
          ev3 = (case fogColorOf cfg of Some v \<Rightarrow> ev2\<lparr>fogColor := v\<rparr> | None \<Rightarrow> ev2)
      in setFog (c\<lparr>envValues := ev3\<rparr>))"

definition updateSkyboxAndEnvValues :: "composer \<Rightarrow> composer" where
  "updateSkyboxAndEnvValues c =
     (let cfg = environmentConfiguration c;
          c1 = (case envMapIntensityOf cfg of
                  Some v \<Rightarrow> c\<lparr>envValues := (envValues c)\<lparr>envMapIntensity := v\<rparr>\<rparr>
                | None \<Rightarrow> c);
          c2 = c1\<lparr>scene := (scene c1)\<lparr>environmentIntensity := envMapIntensity (envValues c1)\<rparr>\<rparr>;
          c3 = (case skyboxIntensityOf cfg of
                  Some v \<Rightarrow> c2\<lparr>envValues := (envValues c2)\<lparr>skyboxIntensity := v\<rparr>\<rparr>
                | None \<Rightarrow> c2);
          c4 = c3\<lparr>scene := (scene c3)\<lparr>backgroundIntensity := skyboxIntensity (envValues c3)\<rparr>\<rparr>;
          c5 = (case skyboxBlurrinessOf cfg of
                  Some v \<Rightarrow> c4\<lparr>envValues := (envValues c4)\<lparr>skyboxBlurriness := v\<rparr>\<rparr>
                | None \<Rightarrow> c4);
          c6 = c5\<lparr>scene := (scene c5)\<lparr>backgroundBlurriness := skyboxBlurriness (envValues c5)\<rparr>\<rparr>;
          c7 = (case skyboxAzimuthalAngleOf cfg of
                  Some v \<Rightarrow>
                    updateSkyboxRotation (c6\<lparr>envValues := (envValues c6)\<lparr>skyboxAzimuthalAngle := v\<rparr>\<rparr>)
                | None \<Rightarrow> c6)
      in (case skyboxPolarAngleOf cfg of
            Some v \<Rightarrow>
              updateSkyboxRotation (c7\<lparr>envValues := (envValues c7)\<lparr>skyboxPolarAngle := v\<rparr>\<rparr>)
          | None \<Rightarrow> c7))"

definition updateBloomValues :: "composer \<Rightarrow> composer" where
  "updateBloomValues c =
     (let c1 = (case bloomIntensityOf (environmentConfiguration c) of
                  Some v \<Rightarrow> c\<lparr>extrasBloom := v\<rparr> | None \<Rightarrow> c)
      in c1\<lparr>bloomEffectIntensity := extrasBloom c1\<rparr>)"

definition updateAmbientLightValues :: "composer \<Rightarrow> composer" where
  "updateAmbientLightValues c =
     setAmbientLight
       (case ambientLightIntensityOf (environmentConfiguration c) of
          Some v \<Rightarrow> c\<lparr>envValues := (envValues c)\<lparr>ambientLightIntensity := v\<rparr>\<rparr>
        | None \<Rightarrow> c)"

section \<open>Sun values and the tracking switch\<close>

definition enableSunTracking :: "real \<Rightarrow> real \<Rightarrow> composer \<Rightarrow> composer" where
  "enableSunTracking speed cycleDuration c =
     (case sun c of
        None \<Rightarrow> c
      | Some _ \<Rightarrow> c\<lparr>sunTrackingEnabled := True,
                     sunTrackingSpeed := speed,
                     sunCycleDuration := cycleDuration,
                     sunStartTime := 0\<rparr>)"

definition disableSunTracking :: "composer \<Rightarrow> composer" where
  "disableSunTracking c = c\<lparr>sunTrackingEnabled := False\<rparr>"

definition updateSunValues :: "composer \<Rightarrow> composer" where
  "updateSunValues c =
     (let cfg = environmentConfiguration c;
          c1 = (case sunIntensityOf cfg of
                  Some v \<Rightarrow> c\<lparr>sunValues := (sunValues c)\<lparr>sunIntensity := v\<rparr>,
                               sun := map_option (setIntensity (Some v)) (sun c)\<rparr>
                | None \<Rightarrow> c);
          c2 = (case sunAzimuthalAngleOf cfg of
                  Some v \<Rightarrow> c1\<lparr>sunValues := (sunValues c1)\<lparr>sunAzimuthalAngle := Some v\<rparr>,
                                sun := map_option (setAzimuthalAngle (Some (v * (pi / 180)))) (sun c1)\<rparr>
                | None \<Rightarrow> c1);
          c3 = (case sunPolarAngleOf cfg of
                  Some v \<Rightarrow> c2\<lparr>sunValues := (sunValues c2)\<lparr>sunPolarAngle := Some v\<rparr>,
                                sun := map_option (setPolarAngle (Some (v * (pi / 180)))) (sun c2)\<rparr>
                | None \<Rightarrow> c2)
      in (case (sun c3, trackingOf cfg) of
            (Some _, Some trackingConfig) \<Rightarrow>
              if cfg_enabled trackingConfig = Some False then disableSunTracking c3
              else if cfg_enabled trackingConfig = Some True
                      \<or> cfg_speed trackingConfig \<noteq> None
                      \<or> cfg_cycleDuration trackingConfig \<noteq> None
              then enableSunTracking
                     (case cfg_speed trackingConfig of
                        Some v \<Rightarrow> v | None \<Rightarrow> sunTrackingSpeed c3)
                     (case cfg_cycleDuration trackingConfig of
                        Some v \<Rightarrow> v | None \<Rightarrow> sunCycleDuration c3)
                     c3
              else c3
          | _ \<Rightarrow> c3))"

section \<open>The atmospheric sky\<close>

text \<open>
  The sun direction that \<^verbatim>\<open>updateAtmosphericSky\<close> and \<^verbatim>\<open>syncSunWithSky\<close> both
  compute from \<^verbatim>\<open>sunValues.sunPosition\<close>; an operation on \<^verbatim>\<open>NaN\<close> gives
  \<^verbatim>\<open>NaN\<close>.
\<close>

definition sunPositionVector :: "sun_values \<Rightarrow> jsnum \<times> jsnum \<times> jsnum" where
  "sunPositionVector sv =
     (let azimuthalRad = map_option (\<lambda>a. a * (pi / 180)) (sunAzimuthalAngle sv);
          polarRad = map_option (\<lambda>a. a * (pi / 180)) (sunPolarAngle sv)
      in (Option.bind polarRad (\<lambda>p. map_option (\<lambda>a. sin p * cos a) azimuthalRad),
          map_option cos polarRad,
          Option.bind polarRad (\<lambda>p. map_option (\<lambda>a. sin p * sin a) azimuthalRad)))"

text \<open>
  The block of \<^verbatim>\<open>updateAtmosphericSky\<close> that copies the atmospheric descriptor of the
  configuration into the uniforms and into \<^verbatim>\<open>envValues.atmosphericSky\<close>. Each value
  is assigned as it is given.
\<close>

definition applyAtmospheric ::
  "atmosphericConfiguration \<Rightarrow> skyUniforms \<times> env_values \<Rightarrow> skyUniforms \<times> env_values" where
  "applyAtmospheric atmospheric st =
     (let (u, ev) = st;
          (u1, ev1) = (case cfg_turbidity atmospheric of
                         Some v \<Rightarrow> (u\<lparr>u_turbidity := v\<rparr>, ev\<lparr>turbidity := v\<rparr>)
                       | None \<Rightarrow> (u, ev));
          (u2, ev2) = (case cfg_rayleigh atmospheric of
                         Some v \<Rightarrow> (u1\<lparr>u_rayleigh := v\<rparr>, ev1\<lparr>rayleigh := v\<rparr>)
                       | None \<Rightarrow> (u1, ev1));
          (u3, ev3) = (case cfg_mieCoefficient atmospheric of
                         Some v \<Rightarrow> (u2\<lparr>u_mieCoefficient := v\<rparr>, ev2\<lparr>mieCoefficient := v\<rparr>)
                       | None \<Rightarrow> (u2, ev2));
          (u4, ev4) = (case cfg_mieDirectionalG atmospheric of
                         Some v \<Rightarrow> (u3\<lparr>u_mieDirectionalG := v\<rparr>, ev3\<lparr>mieDirectionalG := v\<rparr>)
                       | None \<Rightarrow> (u3, ev3))
      in (case cfg_sunPosition atmospheric of
            Some (x, y, z) \<Rightarrow> (u4\<lparr>u_sunPosition := (Some x, Some y, Some z)\<rparr>, ev4)
          | None \<Rightarrow> (u4, ev4)))"

definition updateAtmosphericSky :: "cubeCameraUpdate \<Rightarrow> composer \<Rightarrow> outcome" where
  "updateAtmosphericSky cubeUpdate c =
     (case (sky c, skyEnvironmentGenerator c) of
        (Some sk, Some gen) \<Rightarrow>
          (let ev = envValues c;
               u0 = (uniforms sk)\<lparr>u_turbidity := turbidity ev,
                                   u_rayleigh := rayleigh ev,
                                   u_mieCoefficient := mieCoefficient ev,
                                   u_mieDirectionalG := mieDirectionalG ev\<rparr>;
               (u1, ev1) = (case atmosphericOf (environmentConfiguration c) of
                              Some atmospheric \<Rightarrow> applyAtmospheric atmospheric (u0, ev)
                            | None \<Rightarrow> (u0, ev));
               u2 = (case sun c of
                       Some _ \<Rightarrow> u1\<lparr>u_sunPosition := sunPositionVector (sunValues c)\<rparr>
                     | None \<Rightarrow> u1);
               (gen', children', res) =
                 generateEnvironmentMap cubeUpdate gen (sky_oid sk) (children (scene c))
                   (cameraPosition c) 512;
               c1 = c\<lparr>sky := Some (sk\<lparr>uniforms := u2\<rparr>),
                      envValues := ev1,
                      skyEnvironmentGenerator := Some gen',
                      scene := (scene c)\<lparr>children := children'\<rparr>\<rparr>
           in (case res of
                 Threw \<Rightarrow> Raised c1
               | Returned target \<Rightarrow>
                   Done (c1\<lparr>scene := (scene c1)
                          \<lparr>environment := Some (RenderTargetTexture target),
                           environmentIntensity := envMapIntensity ev1,
                           environmentRotation := skyboxEuler ev1,
                           background := None,
                           backgroundIntensity := skyboxIntensity ev1,
                           backgroundBlurriness := skyboxBlurriness ev1,
                           backgroundRotation := skyboxEuler ev1\<rparr>\<rparr>)))
      | _ \<Rightarrow> Done c)"

definition initialSkyUniforms :: skyUniforms where
  "initialSkyUniforms =
     \<lparr>u_turbidity = 35 / 10, u_rayleigh = 25 / 10, u_mieCoefficient = 8 / 1000,
      u_mieDirectionalG = 85 / 100, u_sunPosition = (Some 0, Some 0, Some 0)\<rparr>"

definition initializeAtmosphericSky :: "cubeCameraUpdate \<Rightarrow> composer \<Rightarrow> outcome" where
  "initializeAtmosphericSky cubeUpdate c =
     (let sc = (case sky c of
                  Some old \<Rightarrow> sceneRemove (sky_oid old) (scene c)
                | None \<Rightarrow> scene c)
      in updateAtmosphericSky cubeUpdate
           (c\<lparr>sky := Some \<lparr>sky_oid = nextOid c, uniforms = initialSkyUniforms\<rparr>,
              scene := sceneAdd (nextOid c) sc,
              nextOid := Suc (nextOid c)\<rparr>))"

definition syncSunWithSky :: "cubeCameraUpdate \<Rightarrow> composer \<Rightarrow> outcome" where
  "syncSunWithSky cubeUpdate c =
     (case (sky c, sun c) of
        (Some sk, Some _) \<Rightarrow>
          updateAtmosphericSky cubeUpdate
            (c\<lparr>sky := Some (sk\<lparr>uniforms :=
                      (uniforms sk)\<lparr>u_sunPosition := sunPositionVector (sunValues c)\<rparr>\<rparr>)\<rparr>)
      | _ \<Rightarrow> Done c)"

section \<open>Sun tracking\<close>

text \<open>
  The JavaScript remainder \<^verbatim>\<open>a % b\<close>: the quotient is truncated towards zero, so the
  result has the sign of \<open>a\<close>; a zero divisor gives \<^verbatim>\<open>NaN\<close>.
\<close>

definition truncate0 :: "real \<Rightarrow> int" where
  "truncate0 x = (if 0 \<le> x then \<lfloor>x\<rfloor> else \<lceil>x\<rceil>)"

definition jsRemainder :: "real \<Rightarrow> real \<Rightarrow> jsnum" where
  "jsRemainder a b = (if b = 0 then None else Some (a - b * of_int (truncate0 (a / b))))"

text \<open>The local constants and expressions of \<^verbatim>\<open>updateSunTracking\<close>.\<close>

definition elapsedTime :: "real \<Rightarrow> real \<Rightarrow> real" where
  "elapsedTime currentTime startTime = (currentTime - startTime) * (2 / 10)"

definition cycleProgress :: "real \<Rightarrow> real \<Rightarrow> jsnum" where
  "cycleProgress elapsed cycleDuration =
     map_option (\<lambda>r. r / cycleDuration) (jsRemainder elapsed cycleDuration)"

definition azimuthalAngleAt :: "real \<Rightarrow> real" where
  "azimuthalAngleAt progress = 90 + progress * 360"

definition minPolarAngle :: real where
  "minPolarAngle = 50"

definition maxPolarAngle :: real where
  "maxPolarAngle = 110"

definition polarAngleRange :: real where
  "polarAngleRange = maxPolarAngle - minPolarAngle"

definition polarAngleCenter :: real where
  "polarAngleCenter = (minPolarAngle + maxPolarAngle) / 2"

definition polarAngleAt :: "real \<Rightarrow> real" where
  "polarAngleAt progress =
     polarAngleCenter - cos (progress * 2 * pi) * (polarAngleRange / 2)"

definition fadeStartAngle :: real where
  "fadeStartAngle = 75"

definition fadeEndAngle :: real where
  "fadeEndAngle = 95"

definition fadeProgress :: "real \<Rightarrow> real" where
  "fadeProgress polarAngle = (polarAngle - fadeStartAngle) / (fadeEndAngle - fadeStartAngle)"

definition fadeFactor :: "real \<Rightarrow> real" where
  "fadeFactor polarAngle = (cos (fadeProgress polarAngle * pi) + 1) / 2"

definition sunIntensityAt :: "real \<Rightarrow> real \<Rightarrow> real" where
  "sunIntensityAt baseSunIntensity polarAngle =
     (if polarAngle \<le> fadeStartAngle then baseSunIntensity
      else if polarAngle \<ge> fadeEndAngle then 0
      else baseSunIntensity * fadeFactor polarAngle)"

text \<open>
  The base intensity,
  \<^verbatim>\<open>this.environmentConfiguration?.sun?.intensity ?? sunValues.sunIntensity\<close>.
\<close>

definition baseSunIntensity :: "composer \<Rightarrow> real" where
  "baseSunIntensity c =
     (case sunIntensityOf (environmentConfiguration c) of
        Some v \<Rightarrow> v
      | None \<Rightarrow> sunIntensity (sunValues c))"

text \<open>
  \<^verbatim>\<open>updateSunTracking(currentTime)\<close>. With a \<^verbatim>\<open>NaN\<close> progress both comparisons
  of the intensity are false and the interpolation gives \<^verbatim>\<open>NaN\<close>, so the three
  values are \<^verbatim>\<open>NaN\<close> together. The field \<^verbatim>\<open>sunTrackingSpeed\<close> is not read.
\<close>

definition updateSunTracking :: "cubeCameraUpdate \<Rightarrow> real \<Rightarrow> composer \<Rightarrow> outcome" where
  "updateSunTracking cubeUpdate currentTime c =
     (case sun c of
        None \<Rightarrow> Done c
      | Some s \<Rightarrow>
          (let c1 = (if sunStartTime c = 0 then c\<lparr>sunStartTime := 50\<rparr> else c);
               elapsed = elapsedTime currentTime (sunStartTime c1);
               progress = cycleProgress elapsed (sunCycleDuration c1);
               azimuthalAngle = map_option azimuthalAngleAt progress;
               polarAngle = map_option polarAngleAt progress;
               intensityNow = map_option (sunIntensityAt (baseSunIntensity c1)) polarAngle;
               wrapped = Option.bind azimuthalAngle (\<lambda>a. jsRemainder a 360);
               c2 = c1\<lparr>sunValues := (sunValues c1)\<lparr>sunAzimuthalAngle := wrapped,
                                                    sunPolarAngle := polarAngle\<rparr>,
                       sun := Some (setIntensity intensityNow
                                (setPolarAngle (map_option (\<lambda>a. a * (pi / 180)) polarAngle)
                                  (setAzimuthalAngle (map_option (\<lambda>a. a * (pi / 180)) wrapped) s)))\<rparr>
           in syncSunWithSky cubeUpdate c2))"

text \<open>
  For the statements about tracking: the start time that an advance call works with, and
  the cycle progress that it computes at time \<open>t\<close>.
\<close>

definition trackingStart :: "composer \<Rightarrow> real" where
  "trackingStart c = (if sunStartTime c = 0 then 50 else sunStartTime c)"

definition trackingProgress :: "real \<Rightarrow> composer \<Rightarrow> jsnum" where
  "trackingProgress t c = cycleProgress (elapsedTime t (trackingStart c)) (sunCycleDuration c)"

section \<open>Rendering a frame and updating the configuration\<close>

text \<open>
  \<^verbatim>\<open>render(timeManager)\<close>: the statements that are not commented out in the source. The
  frame is drawn by \<^verbatim>\<open>this.renderer.render(this.scene, camera)\<close>.
\<close>

definition render :: "cubeCameraUpdate \<Rightarrow> real \<Rightarrow> composer \<Rightarrow> outcome" where
  "render cubeUpdate time c =
     andThen
       (if sunTrackingEnabled c \<and> sun c \<noteq> None then updateSunTracking cubeUpdate time c
        else Done c)
       (\<lambda>c1. Done (c1\<lparr>toneMappingExposure := 15 / 100,
                       toneMapping := ACESFilmicToneMapping,
                       rendered := rendered c1 @ [RendererRender]\<rparr>))"

text \<open>
  The selection of the skybox source, which the constructor and
  \<^verbatim>\<open>updateEnvironmentConfiguration\<close> both make from the stored configuration.
\<close>

definition selectSkybox :: "cubeCameraUpdate \<Rightarrow> composer \<Rightarrow> outcome" where
  "selectSkybox cubeUpdate c =
     (case skyboxOf (environmentConfiguration c) of
        Some sb \<Rightarrow>
          (case cfg_source sb of
             HdrJpgUrl url \<Rightarrow> Done (useHDRJPG url c)
           | HdrUrl url \<Rightarrow> Done (useHDRI url c)
           | Atmospheric _ \<Rightarrow> updateAtmosphericSky cubeUpdate c
           | NoSource \<Rightarrow> Done c)
      | None \<Rightarrow> updateAtmosphericSky cubeUpdate c)"

definition updateEnvironmentConfiguration ::
  "cubeCameraUpdate \<Rightarrow> environmentConfiguration \<Rightarrow> composer \<Rightarrow> outcome" where
  "updateEnvironmentConfiguration cubeUpdate cfg c =
     andThen (selectSkybox cubeUpdate (c\<lparr>environmentConfiguration := Some cfg\<rparr>))
       (\<lambda>c1. Done (updateFogValues (updateSunValues (updateBloomValues
                (updateAmbientLightValues (updateSkyboxAndEnvValues c1))))))"

section \<open>The constructor\<close>

text \<open>
  What the constructor reads besides its arguments: the tweakpane values of the modules
  that are not among the sources (\<^verbatim>\<open>extrasValues.bloom\<close>, the two
  \<^verbatim>\<open>enabled\<close> flags of the ambient-occlusion passes, \<^verbatim>\<open>rendererValues\<close>), the
  state of a new \<^verbatim>\<open>Sun\<close>, and the identity of the first object it creates.
\<close>

record moduleValues =
  mv_envValues :: env_values
  mv_sunValues :: sun_values
  mv_bloom :: real
  mv_ppssaoEnabled :: bool
  mv_n8ssaoEnabled :: bool
  mv_toneMapping :: nat
  mv_exposure :: real
  mv_newSun :: Sun
  mv_firstOid :: nat

definition addPasses :: "bool \<Rightarrow> bool \<Rightarrow> pass list" where
  "addPasses ppssaoEnabled n8ssaoEnabled =
     [RenderPass]
     @ (if ppssaoEnabled then [NormalPass, PpssaoPass] else [])
     @ (if n8ssaoEnabled then [N8aoPass] else [])
     @ [FxaaPass, BloomPass, ToneMappingPass, BcsPass, GaussGrainPass]"

definition constructor ::
  "cubeCameraUpdate \<Rightarrow> moduleValues \<Rightarrow> Scene \<Rightarrow> vector3 \<Rightarrow> bool
     \<Rightarrow> environmentConfiguration option \<Rightarrow> outcome" where
  "constructor cubeUpdate mv sc cameraPos spawn cfg =
     (let c0 = \<lparr>scene = sc, cameraPosition = cameraPos,
                toneMappingExposure = mv_exposure mv, toneMapping = mv_toneMapping mv,
                rendered = [], effectComposerPasses = [],
                bloomEffectIntensity = mv_bloom mv, ambientLight = None,
                environmentConfiguration = cfg,
                src_hdrJpgUrl = None, src_hdrUrl = None, latestPromise = None,
                nextPromise = 0, startedLoads = [],
                sky = None, skyEnvironmentGenerator = None, sun = None, spawnSun = spawn,
                sunTrackingEnabled = False, sunTrackingSpeed = 1 / 100,
                sunCycleDuration = 30, sunStartTime = 0,
                envValues = mv_envValues mv, sunValues = mv_sunValues mv,
                extrasBloom = mv_bloom mv, nextOid = mv_firstOid mv\<rparr>;
          c1 = (case bloomIntensityOf cfg of
                  Some v \<Rightarrow> if v \<noteq> 0 then c0\<lparr>extrasBloom := v\<rparr> else c0
                | None \<Rightarrow> c0);
          c2 = updateFogValues (updateAmbientLightValues (updateSkyboxAndEnvValues c1));
          c3 = c2\<lparr>bloomEffectIntensity := extrasBloom c2,
                  effectComposerPasses :=
                    addPasses (mv_ppssaoEnabled mv) (mv_n8ssaoEnabled mv)\<rparr>;
          c4 = (if spawn
                then (let c' = c3\<lparr>sun := Some ((mv_newSun mv)\<lparr>sun_oid := nextOid c3\<rparr>),
                                  scene := sceneAdd (nextOid c3) (scene c3),
                                  nextOid := Suc (nextOid c3)\<rparr>;
                          sunTrackingConfig = trackingOf cfg
                      in if Option.bind sunTrackingConfig cfg_enabled \<noteq> Some False
                         then enableSunTracking
                                (case Option.bind sunTrackingConfig cfg_speed of
                                   Some v \<Rightarrow> v | None \<Rightarrow> 1)
                                (case Option.bind sunTrackingConfig cfg_cycleDuration of
                                   Some v \<Rightarrow> v | None \<Rightarrow> 10)
                                c'
                         else c')
                else c3);
          c5 = c4\<lparr>skyEnvironmentGenerator :=
                    Some \<lparr>renderTarget = None, cubeCameraPosition = None,
                          disposedTargets = []\<rparr>\<rparr>
      in andThen (initializeAtmosphericSky cubeUpdate c5)
           (\<lambda>c6. andThen (selectSkybox cubeUpdate c6) (\<lambda>c7. Done (updateSunValues c7))))"

section \<open>Example inputs\<close>


definition emptyScene :: Scene where
  "emptyScene =
     \<lparr>children = [], environment = None, background = None, environmentIntensity = 1,
      backgroundIntensity = 1, backgroundBlurriness = 0, environmentRotation = (0, 0, 0),
      backgroundRotation = (0, 0, 0), fog = None\<rparr>"

definition exampleValues :: moduleValues where
  "exampleValues =
     \<lparr>mv_envValues = initialEnvValues, mv_sunValues = initialSunValues, mv_bloom = 1 / 10,
      mv_ppssaoEnabled = False, mv_n8ssaoEnabled = False, mv_toneMapping = 5,
      mv_exposure = 1,
      mv_newSun = \<lparr>sun_oid = 0, intensity = Some (72 / 10),
                   azimuthalAngleRad = Some 0, polarAngleRad = Some 0\<rparr>,
      mv_firstOid = 0\<rparr>"

definition alwaysCompletes :: cubeCameraUpdate where
  "alwaysCompletes = (\<lambda>_. Completes)"



text \<open>
  The composer that the constructor gives for these inputs with no configuration and no
  sun (\<open>exampleComposer\<close>), and with a sun (\<open>exampleSunComposer\<close>: tracking is on by
  default, with speed 1 and a cycle of 10 seconds).
\<close>

definition exampleComposer :: composer where
  "exampleComposer =
     \<lparr>scene = \<lparr>children = [\<lparr>oid = 0, visible = True\<rparr>, \<lparr>oid = 1, visible = True\<rparr>],
               environment = Some (RenderTargetTexture 512), background = None,
               environmentIntensity = 1, backgroundIntensity = 1, backgroundBlurriness = 0,
               environmentRotation = (0, 0, 0), backgroundRotation = (0, 0, 0),
               fog = Some \<lparr>fog_color = (7 / 10, 7 / 10, 7 / 10), fog_near = 1000,
                          fog_far = 1000\<rparr>\<rparr>,
      cameraPosition = (0, 0, 0), toneMappingExposure = 1, toneMapping = 5, rendered = [],
      effectComposerPasses =
        [RenderPass, FxaaPass, BloomPass, ToneMappingPass, BcsPass, GaussGrainPass],
      bloomEffectIntensity = 1 / 10,
      ambientLight = Some \<lparr>light_oid = 0, light_color = (1, 1, 1), light_intensity = 0\<rparr>,
      environmentConfiguration = None,
      src_hdrJpgUrl = None, src_hdrUrl = None, latestPromise = None, nextPromise = 0,
      startedLoads = [],
      sky = Some \<lparr>sky_oid = 1, uniforms = initialSkyUniforms\<rparr>,
      skyEnvironmentGenerator =
        Some \<lparr>renderTarget = Some 512, cubeCameraPosition = Some (0, 0, 0),
              disposedTargets = []\<rparr>,
      sun = None, spawnSun = False,
      sunTrackingEnabled = False, sunTrackingSpeed = 1 / 100, sunCycleDuration = 30,
      sunStartTime = 0,
      envValues = initialEnvValues, sunValues = initialSunValues, extrasBloom = 1 / 10,
      nextOid = 2\<rparr>"

definition exampleSunComposer :: composer where
  "exampleSunComposer =
     exampleComposer
       \<lparr>scene := (scene exampleComposer)
          \<lparr>children := [\<lparr>oid = 0, visible = True\<rparr>, \<lparr>oid = 1, visible = True\<rparr>,
                        \<lparr>oid = 2, visible = True\<rparr>]\<rparr>,
        sky := Some \<lparr>sky_oid = 2,
                     uniforms = initialSkyUniforms
                       \<lparr>u_sunPosition := sunPositionVector initialSunValues\<rparr>\<rparr>,
        sun := Some \<lparr>sun_oid = 1, intensity = Some (72 / 10), azimuthalAngleRad = Some 0,
                     polarAngleRad = Some 0\<rparr>,
        spawnSun := True,
        sunTrackingEnabled := True, sunTrackingSpeed := 1, sunCycleDuration := 10,
        nextOid := 3\<rparr>"











section \<open>Visibility across generateEnvironmentMap\<close>

lemma restore_after_hide: "restoreVisible skyId (captureVisible skyId cs) (hideOthers skyId cs) = cs"
proof (rule nth_equalityI)
  show "length (restoreVisible skyId (captureVisible skyId cs) (hideOthers skyId cs)) = length cs"
    by (simp add: restoreVisible_def hideOthers_def)
next
  fix i
  assume "i < length (restoreVisible skyId (captureVisible skyId cs) (hideOthers skyId cs))"
  then have i: "i < length cs"
    by (simp add: restoreVisible_def hideOthers_def)
  then show "restoreVisible skyId (captureVisible skyId cs) (hideOthers skyId cs) ! i = cs ! i"
    by (simp add: restoreVisible_def hideOthers_def captureVisible_def originalAt_def
        nth_enumerate_eq)
qed

lemma generate_completes:
  "cubeUpdate (hideOthers skyId cs) = Completes \<Longrightarrow>
   snd (generateEnvironmentMap cubeUpdate gen skyId cs pos edge) = (cs, Returned edge)"
  by (simp add: generateEnvironmentMap_def Let_def restore_after_hide)

lemma generate_throws:
  "cubeUpdate (hideOthers skyId cs) = Throws \<Longrightarrow>
   snd (generateEnvironmentMap cubeUpdate gen skyId cs pos edge) = (hideOthers skyId cs, Threw)"
  by (simp add: generateEnvironmentMap_def Let_def)

text \<open>
  C8, as the code has it. When the cube camera's update completes, every child of the scene
  has after the call the \<^verbatim>\<open>visible\<close> flag it had before, and the render target is
  returned. When the update throws, the call ends with that exception and the children are
  left as hidden: the sky keeps its flag and every other child is invisible.
\<close>

theorem generateEnvironmentMap_visibility:
  "snd (generateEnvironmentMap cubeUpdate gen skyId cs pos edge) =
     (case cubeUpdate (hideOthers skyId cs) of
        Completes \<Rightarrow> (cs, Returned edge)
      | Throws \<Rightarrow> (hideOthers skyId cs, Threw))"
  by (simp add: generateEnvironmentMap_def Let_def restore_after_hide split: stepResult.split)

text \<open>
  C8 as stated fails when the render step throws: a visible child other than the sky is
  invisible after the call.
\<close>

theorem generateEnvironmentMap_throw_counterexample:
  "fst (snd (generateEnvironmentMap (\<lambda>_. Throws)
      \<lparr>renderTarget = None, cubeCameraPosition = None, disposedTargets = []\<rparr> 0
      [\<lparr>oid = 0, visible = True\<rparr>, \<lparr>oid = 1, visible = True\<rparr>] (0, 0, 0) 512))
     = [\<lparr>oid = 0, visible = True\<rparr>, \<lparr>oid = 1, visible = False\<rparr>]"
  by (simp add: generateEnvironmentMap_def Let_def hideOthers_def)

section \<open>Superseded and repeated skybox loads\<close>

lemma useSkybox_after:
  assumes "src_hdrJpgUrl c = None \<or> src_hdrUrl c = None"
  shows "(src_hdrJpgUrl (useSkybox k url c) = Some url \<and> src_hdrUrl (useSkybox k url c) = None)
       \<or> (src_hdrJpgUrl (useSkybox k url c) = None \<and> src_hdrUrl (useSkybox k url c) = Some url)"
  using assms by (cases k) (auto simp: useSkybox_def useHDRJPG_def useHDRI_def)

lemma useSkybox_starts:
  assumes "src_hdrJpgUrl c \<noteq> Some url" and "src_hdrUrl c \<noteq> Some url"
  shows "latestPromise (useSkybox k url c) = Some (nextPromise c)"
    and "startedLoads (useSkybox k url c) = startedLoads c @ [(nextPromise c, k, url)]"
    and "scene (useSkybox k url c) = scene c"
  using assms by (cases k; simp add: useSkybox_def useHDRJPG_def useHDRI_def)+

lemma promiseResolved_latest:
  "latestPromise c = Some p \<Longrightarrow>
   environment (scene (promiseResolved p envMap c)) = Some envMap \<and>
   background (scene (promiseResolved p envMap c)) = Some envMap \<and>
   latestPromise (promiseResolved p envMap c) = Some p"
  by (simp add: promiseResolved_def applyEnvMap_def)

lemma promiseResolved_stale:
  "latestPromise c \<noteq> Some p \<Longrightarrow> promiseResolved p envMap c = c"
  by (simp add: promiseResolved_def)

text \<open>
  C1. A skybox load of \<open>urlA\<close> is followed by one of a different \<open>urlB\<close>, each by
  \<^verbatim>\<open>useHDRJPG\<close> or \<^verbatim>\<open>useHDRI\<close>; the stored source has at most one of its two
  keys, as every assignment to it in the source has. The second call starts a decode whose
  promise \<open>pB\<close> becomes the latest one. When \<open>pB\<close> resolves, the environment and the
  background of the scene are its map. When a promise \<open>pA\<close> created before the second call
  (the promise of the first call is one) resolves after that, its map is discarded and the
  state is unchanged, so the scene still shows the map of \<open>urlB\<close>.
\<close>

theorem stale_skybox_result_discarded:
  assumes "urlA \<noteq> urlB"
    and "src_hdrJpgUrl c = None \<or> src_hdrUrl c = None"
    and "pA < nextPromise (useSkybox kA urlA c)"
  shows "let c1 = useSkybox kA urlA c;
             c2 = useSkybox kB urlB c1;
             pB = nextPromise c1;
             c3 = promiseResolved pB mapB c2;
             c4 = promiseResolved pA mapA c3
         in latestPromise c2 = Some pB
            \<and> startedLoads c2 = startedLoads c1 @ [(pB, kB, urlB)]
            \<and> environment (scene c3) = Some mapB
            \<and> background (scene c3) = Some mapB
            \<and> c4 = c3"
proof -
  define c1 where "c1 = useSkybox kA urlA c"
  define c2 where "c2 = useSkybox kB urlB c1"
  define c3 where "c3 = promiseResolved (nextPromise c1) mapB c2"
  have src: "src_hdrJpgUrl c1 \<noteq> Some urlB" "src_hdrUrl c1 \<noteq> Some urlB"
    using useSkybox_after [OF assms(2), of kA urlA] assms(1) by (auto simp: c1_def)
  have latest: "latestPromise c2 = Some (nextPromise c1)"
    and loads: "startedLoads c2 = startedLoads c1 @ [(nextPromise c1, kB, urlB)]"
    using useSkybox_starts [OF src] by (simp_all add: c2_def)
  have shown: "environment (scene c3) = Some mapB" "background (scene c3) = Some mapB"
    and latest3: "latestPromise c3 = Some (nextPromise c1)"
    using promiseResolved_latest [OF latest] by (simp_all add: c3_def)
  have "pA \<noteq> nextPromise c1"
    using assms(3) by (simp add: c1_def)
  then have "promiseResolved pA mapA c3 = c3"
    using latest3 by (simp add: promiseResolved_stale)
  with latest loads shown show ?thesis
    by (simp add: c1_def c2_def c3_def Let_def)
qed

theorem stale_skybox_result_discarded_witness:
  "''a.jpg'' \<noteq> ''b.hdr''
   \<and> (src_hdrJpgUrl exampleComposer = None \<or> src_hdrUrl exampleComposer = None)
   \<and> 0 < nextPromise (useSkybox HDRJPGLoader ''a.jpg'' exampleComposer)
   \<and> startedLoads (useSkybox HDRJPGLoader ''a.jpg'' exampleComposer)
        = [(0, HDRJPGLoader, ''a.jpg'')]
   \<and> environment (scene (promiseResolved 0 (EnvMapTexture 1)
        (promiseResolved 1 (EnvMapTexture 2)
          (useSkybox RGBELoader ''b.hdr'' (useSkybox HDRJPGLoader ''a.jpg'' exampleComposer)))))
      = Some (EnvMapTexture 2)"
proof -
  have start: "nextPromise (useSkybox HDRJPGLoader ''a.jpg'' exampleComposer) = 1"
    and loads: "startedLoads (useSkybox HDRJPGLoader ''a.jpg'' exampleComposer)
        = [(0, HDRJPGLoader, ''a.jpg'')]"
    by (simp_all add: useSkybox_def useHDRJPG_def exampleComposer_def)
  have one: "src_hdrJpgUrl exampleComposer = None \<or> src_hdrUrl exampleComposer = None"
    by (simp add: exampleComposer_def)
  have lt: "0 < nextPromise (useSkybox HDRJPGLoader ''a.jpg'' exampleComposer)"
    by (simp add: start)
  have ne: "''a.jpg'' \<noteq> ''b.hdr''"
    by simp
  from stale_skybox_result_discarded [OF ne one lt, of RGBELoader "EnvMapTexture 2" "EnvMapTexture 1"]
  show ?thesis
    using start loads one by (simp add: Let_def)
qed

text \<open>
  C7. A second \<^verbatim>\<open>useHDRJPG(url)\<close> (or \<^verbatim>\<open>useHDRI(url)\<close>) with the url of the call
  before it leaves the whole state as the first call left it: the log of started decodes,
  the stored source and the latest promise are unchanged.
\<close>

theorem repeated_skybox_load_is_noop:
  "useHDRJPG url (useHDRJPG url c) = useHDRJPG url c
   \<and> useHDRI url (useHDRI url c) = useHDRI url c"
  by (simp add: useHDRJPG_def useHDRI_def)

section \<open>Frame conditions of the atmospheric sky update\<close>

lemma updateAtmosphericSky_frame:
  "sunValues (stateOf (updateAtmosphericSky g c)) = sunValues c"
  "sun (stateOf (updateAtmosphericSky g c)) = sun c"
  "sunStartTime (stateOf (updateAtmosphericSky g c)) = sunStartTime c"
  "sunCycleDuration (stateOf (updateAtmosphericSky g c)) = sunCycleDuration c"
  "sunTrackingSpeed (stateOf (updateAtmosphericSky g c)) = sunTrackingSpeed c"
  "sunTrackingEnabled (stateOf (updateAtmosphericSky g c)) = sunTrackingEnabled c"
  "environmentConfiguration (stateOf (updateAtmosphericSky g c)) = environmentConfiguration c"
  "rendered (stateOf (updateAtmosphericSky g c)) = rendered c"
  by (simp_all add: updateAtmosphericSky_def Let_def
      split: option.split prod.split completion.split)

lemma syncSunWithSky_frame:
  "sunValues (stateOf (syncSunWithSky g c)) = sunValues c"
  "sun (stateOf (syncSunWithSky g c)) = sun c"
  "sunStartTime (stateOf (syncSunWithSky g c)) = sunStartTime c"
  "sunCycleDuration (stateOf (syncSunWithSky g c)) = sunCycleDuration c"
  "sunTrackingSpeed (stateOf (syncSunWithSky g c)) = sunTrackingSpeed c"
  "sunTrackingEnabled (stateOf (syncSunWithSky g c)) = sunTrackingEnabled c"
  "environmentConfiguration (stateOf (syncSunWithSky g c)) = environmentConfiguration c"
  "rendered (stateOf (syncSunWithSky g c)) = rendered c"
  by (simp_all add: syncSunWithSky_def updateAtmosphericSky_frame split: option.split)

lemma updateAtmosphericSky_completes:
  "updateAtmosphericSky alwaysCompletes c = Done (stateOf (updateAtmosphericSky alwaysCompletes c))"
  by (simp add: updateAtmosphericSky_def generateEnvironmentMap_def alwaysCompletes_def Let_def
      split: option.split prod.split)

lemma syncSunWithSky_completes:
  "syncSunWithSky alwaysCompletes c = Done (stateOf (syncSunWithSky alwaysCompletes c))"
  using updateAtmosphericSky_completes by (simp add: syncSunWithSky_def split: option.split)

section \<open>What a tracking advance computes\<close>

lemma updateSunTracking_effect:
  assumes "sun c = Some s"
  shows "sunStartTime (stateOf (updateSunTracking g t c)) = trackingStart c"
    and "sunCycleDuration (stateOf (updateSunTracking g t c)) = sunCycleDuration c"
    and "sunTrackingSpeed (stateOf (updateSunTracking g t c)) = sunTrackingSpeed c"
    and "environmentConfiguration (stateOf (updateSunTracking g t c)) = environmentConfiguration c"
    and "rendered (stateOf (updateSunTracking g t c)) = rendered c"
    and "sunPolarAngle (sunValues (stateOf (updateSunTracking g t c)))
           = map_option polarAngleAt (trackingProgress t c)"
    and "sunAzimuthalAngle (sunValues (stateOf (updateSunTracking g t c)))
           = Option.bind (map_option azimuthalAngleAt (trackingProgress t c))
               (\<lambda>a. jsRemainder a 360)"
    and "sunIntensity (sunValues (stateOf (updateSunTracking g t c))) = sunIntensity (sunValues c)"
    and "map_option sun_oid (sun (stateOf (updateSunTracking g t c))) = Some (sun_oid s)"
    and "map_option intensity (sun (stateOf (updateSunTracking g t c)))
           = Some (map_option (sunIntensityAt (baseSunIntensity c))
               (map_option polarAngleAt (trackingProgress t c)))"
  using assms
  by (simp_all add: updateSunTracking_def Let_def syncSunWithSky_frame trackingStart_def
      trackingProgress_def setIntensity_def setPolarAngle_def setAzimuthalAngle_def
      baseSunIntensity_def split: option.split)

lemma updateSunTracking_keeps_sun:
  assumes "sun c = Some s"
  shows "\<exists>s'. sun (stateOf (updateSunTracking g t c)) = Some s'"
  using updateSunTracking_effect(9) [OF assms, of g t] by (cases "sun (stateOf (updateSunTracking g t c))") simp_all

lemma updateSunTracking_completes:
  "updateSunTracking alwaysCompletes t c
     = Done (stateOf (updateSunTracking alwaysCompletes t c))"
  using syncSunWithSky_completes by (simp add: updateSunTracking_def Let_def split: option.split)

lemma updateSunTracking_ignores_speed:
  "sunValues (stateOf (updateSunTracking g t (c\<lparr>sunTrackingSpeed := v\<rparr>)))
     = sunValues (stateOf (updateSunTracking g t c))"
  by (simp add: updateSunTracking_def Let_def syncSunWithSky_frame baseSunIntensity_def
      split: option.split)

lemma jsRemainder_negative:
  assumes "a < 0" and "0 < b"
  shows "\<exists>r. jsRemainder a b = Some r \<and> - b < r \<and> r \<le> 0
             \<and> (r = 0 \<longleftrightarrow> (\<exists>k::int. a = of_int k * b))"
proof -
  define q where "q = \<lceil>a / b\<rceil>"
  define r where "r = a - b * of_int q"
  have "a / b < 0"
    using assms by (simp add: divide_neg_pos)
  then have rem: "jsRemainder a b = Some r"
    using assms by (simp add: jsRemainder_def truncate0_def r_def q_def)
  have "a / b \<le> of_int q" "of_int q < a / b + 1"
    unfolding q_def by linarith+
  then have "a \<le> of_int q * b" "of_int q * b < a + b"
    using assms(2) by (simp_all add: field_simps)
  then have bounds: "- b < r" "r \<le> 0"
    by (simp_all add: r_def algebra_simps)
  have "r = 0 \<longleftrightarrow> (\<exists>k::int. a = of_int k * b)"
  proof
    assume "r = 0"
    then have "a = of_int q * b" by (simp add: r_def algebra_simps)
    then show "\<exists>k::int. a = of_int k * b" ..
  next
    assume "\<exists>k::int. a = of_int k * b"
    then obtain k :: int where k: "a = of_int k * b" ..
    then have "a / b = of_int k" using assms(2) by simp
    then have "q = k" by (simp add: q_def)
    then show "r = 0" by (simp add: r_def k)
  qed
  with rem bounds show ?thesis by blast
qed

lemma jsRemainder_small: "\<bar>a\<bar> < b \<Longrightarrow> jsRemainder a b = Some a"
proof -
  assume h: "\<bar>a\<bar> < b"
  then have b: "0 < b" by linarith
  have "- 1 < a / b" "a / b < 1" using h b by (simp_all add: field_simps abs_less_iff)
  then have "truncate0 (a / b) = 0"
    by (auto simp: truncate0_def floor_eq_iff ceiling_eq_iff)
  then show ?thesis using b by (simp add: jsRemainder_def)
qed

lemma polarAngleAt_values:
  "polarAngleAt 0 = 50" "polarAngleAt (1 / 2) = 110" "polarAngleAt 1 = 50"
  by (simp_all add: polarAngleAt_def polarAngleCenter_def polarAngleRange_def minPolarAngle_def
      maxPolarAngle_def)

lemma polarAngleAt_bounds: "50 \<le> polarAngleAt p \<and> polarAngleAt p \<le> 110"
proof -
  have aux: "50 \<le> 80 - x * 30 \<and> 80 - x * 30 \<le> 110" if "- 1 \<le> x" "x \<le> 1" for x :: real
    using that by auto
  show ?thesis
    using aux [of "cos (p * 2 * pi)"]
    by (simp add: polarAngleAt_def polarAngleCenter_def polarAngleRange_def minPolarAngle_def
      maxPolarAngle_def)
qed

lemma fadeFactor_range: "0 \<le> fadeFactor a \<and> fadeFactor a \<le> 1"
proof -
  have aux: "0 \<le> (x + 1) / 2 \<and> (x + 1) / 2 \<le> 1" if "- 1 \<le> x" "x \<le> 1" for x :: real
    using that by auto
  show ?thesis
    using aux [of "cos (fadeProgress a * pi)"] by (simp add: fadeFactor_def)
qed

lemma fadeFactor_antimono:
  assumes "75 \<le> a" "a \<le> b" "b \<le> 95"
  shows "fadeFactor b \<le> fadeFactor a"
proof -
  have "0 \<le> fadeProgress a * pi" "fadeProgress a * pi \<le> fadeProgress b * pi"
    "fadeProgress b * pi \<le> pi"
    using assms
    by (simp_all add: fadeProgress_def fadeStartAngle_def fadeEndAngle_def divide_right_mono)
  then have "cos (fadeProgress b * pi) \<le> cos (fadeProgress a * pi)"
    by (rule cos_monotone_0_pi_le)
  then show ?thesis by (simp add: fadeFactor_def)
qed

lemma sunIntensityAt_antimono:
  assumes "0 \<le> base" "a \<le> b"
  shows "sunIntensityAt base b \<le> sunIntensityAt base a"
proof -
  have le1: "base * fadeFactor x \<le> base" for x
    using assms(1) fadeFactor_range [of x] by (simp add: mult_left_le)
  have ge0: "0 \<le> base * fadeFactor x" for x
    using assms(1) fadeFactor_range [of x] by simp
  show ?thesis
  proof (cases "b \<le> 75")
    case True
    then show ?thesis using assms by (simp add: sunIntensityAt_def fadeStartAngle_def)
  next
    case b75: False
    show ?thesis
    proof (cases "95 \<le> b")
      case True
      then show ?thesis using assms(1) ge0 [of a]
        by (simp add: sunIntensityAt_def fadeStartAngle_def fadeEndAngle_def)
    next
      case b95: False
      show ?thesis
      proof (cases "a \<le> 75")
        case True
        then show ?thesis using b75 b95 le1 [of b]
          by (simp add: sunIntensityAt_def fadeStartAngle_def fadeEndAngle_def)
      next
        case False
        then have "fadeFactor b \<le> fadeFactor a"
          using fadeFactor_antimono [of a b] assms(2) b95 by simp
        then have "base * fadeFactor b \<le> base * fadeFactor a"
          using assms(1) by (rule mult_left_mono)
        then show ?thesis using False b75 b95 assms(2)
          by (simp add: sunIntensityAt_def fadeStartAngle_def fadeEndAngle_def)
      qed
    qed
  qed
qed

lemma exampleSunComposer_fields:
  "sun exampleSunComposer = Some \<lparr>sun_oid = 1, intensity = Some (72 / 10),
      azimuthalAngleRad = Some 0, polarAngleRad = Some 0\<rparr>"
  "sunStartTime exampleSunComposer = 0"
  "sunCycleDuration exampleSunComposer = 10"
  "sunTrackingSpeed exampleSunComposer = 1"
  "sunTrackingEnabled exampleSunComposer"
  "rendered exampleSunComposer = []"
  "baseSunIntensity exampleSunComposer = 72 / 10"
  by (simp_all add: exampleSunComposer_def exampleComposer_def baseSunIntensity_def
      sunIntensityOf_def sunOf_def initialSunValues_def)

lemma example_progress:
  "trackingProgress 0 exampleSunComposer = Some 0"
  "trackingProgress 20 exampleSunComposer = Some (- 3 / 5)"
  "trackingProgress 50 exampleSunComposer = Some 0"
  "trackingProgress 75 exampleSunComposer = Some (1 / 2)"
  by (simp_all add: trackingProgress_def trackingStart_def exampleSunComposer_fields
      cycleProgress_def elapsedTime_def jsRemainder_def truncate0_def)

section \<open>The tracked sun: phase, period and intensity\<close>

text \<open>
  C4, on the code. The polar angle is one cosine oscillation between 50 and 110 degrees over
  the cycle, but with the opposite phase: at progress 0 and 1 it is the minimum (the sun is
  highest, midday), and at progress 0.5 it is the maximum (below the horizon, midnight).
  With a cycle of 10 seconds the advance at time 50 stores the polar angle 50 and the one
  at time 75 stores 110.
\<close>

theorem polar_angle_phase_inverted:
  "polarAngleAt 0 = minPolarAngle
   \<and> polarAngleAt (1 / 2) = maxPolarAngle
   \<and> polarAngleAt 1 = minPolarAngle
   \<and> trackingProgress 50 exampleSunComposer = Some 0
   \<and> sunPolarAngle (sunValues (stateOf (updateSunTracking alwaysCompletes 50 exampleSunComposer)))
       = Some 50
   \<and> trackingProgress 75 exampleSunComposer = Some (1 / 2)
   \<and> sunPolarAngle (sunValues (stateOf (updateSunTracking alwaysCompletes 75 exampleSunComposer)))
       = Some 110"
  by (simp add: updateSunTracking_effect [OF exampleSunComposer_fields(1)] example_progress
      polarAngleAt_values minPolarAngle_def maxPolarAngle_def)

text \<open>
  C5, on the code. The elapsed time is multiplied by the constant 0.2 and
  \<^verbatim>\<open>sunTrackingSpeed\<close> is not read. With speed 1 and a cycle of 10 seconds the
  azimuth is 90 at time 50 and 162 at time 60, one cycle duration later; it is 90 again at
  time 100.
\<close>

theorem tracking_period_ignores_speed:
  "sunTrackingSpeed exampleSunComposer = 1
   \<and> sunCycleDuration exampleSunComposer = 10
   \<and> sunAzimuthalAngle (sunValues (stateOf
        (updateSunTracking alwaysCompletes 50 exampleSunComposer))) = Some 90
   \<and> sunAzimuthalAngle (sunValues (stateOf
        (updateSunTracking alwaysCompletes 60
          (stateOf (updateSunTracking alwaysCompletes 50 exampleSunComposer))))) = Some 162
   \<and> sunAzimuthalAngle (sunValues (stateOf
        (updateSunTracking alwaysCompletes 100
          (stateOf (updateSunTracking alwaysCompletes 50 exampleSunComposer))))) = Some 90"
proof -
  define c1 where "c1 = stateOf (updateSunTracking alwaysCompletes 50 exampleSunComposer)"
  obtain s' where sun1: "sun c1 = Some s'"
    using updateSunTracking_keeps_sun [OF exampleSunComposer_fields(1)] by (auto simp: c1_def)
  have start1: "sunStartTime c1 = 50" and cycle1: "sunCycleDuration c1 = 10"
    by (simp_all add: c1_def updateSunTracking_effect [OF exampleSunComposer_fields(1)]
        trackingStart_def exampleSunComposer_fields)
  have p60: "trackingProgress 60 c1 = Some (1 / 5)" and p100: "trackingProgress 100 c1 = Some 0"
    by (simp_all add: trackingProgress_def trackingStart_def start1 cycle1 cycleProgress_def
        elapsedTime_def jsRemainder_def truncate0_def)
  have "sunAzimuthalAngle (sunValues (stateOf (updateSunTracking alwaysCompletes 50 exampleSunComposer)))
      = Some 90"
    by (simp add: updateSunTracking_effect [OF exampleSunComposer_fields(1)] example_progress
        azimuthalAngleAt_def jsRemainder_def truncate0_def)
  moreover have "sunAzimuthalAngle (sunValues (stateOf (updateSunTracking alwaysCompletes 60 c1)))
      = Some 162"
    by (simp add: updateSunTracking_effect [OF sun1] p60 azimuthalAngleAt_def jsRemainder_def
        truncate0_def)
  moreover have "sunAzimuthalAngle (sunValues (stateOf (updateSunTracking alwaysCompletes 100 c1)))
      = Some 90"
    by (simp add: updateSunTracking_effect [OF sun1] p100 azimuthalAngleAt_def jsRemainder_def
        truncate0_def)
  ultimately show ?thesis
    by (simp add: c1_def exampleSunComposer_fields)
qed

text \<open>
  C6, as the code has it. A tracking advance sets the intensity of the sun to
  \<open>sunIntensityAt\<close> of the base intensity and the polar angle it stores. That is the base
  intensity for a polar angle of at most 75 degrees, zero for one of at least 95 degrees
  and the cosine interpolation between the two; for a base intensity that is not negative
  it does not increase as the polar angle grows.
\<close>

theorem tracked_sun_intensity:
  assumes "sun c = Some s"
  shows "map_option intensity (sun (stateOf (updateSunTracking g t c)))
           = Some (map_option (sunIntensityAt (baseSunIntensity c))
               (sunPolarAngle (sunValues (stateOf (updateSunTracking g t c)))))
         \<and> (\<forall>base polarAngle.
               (polarAngle \<le> 75 \<longrightarrow> sunIntensityAt base polarAngle = base)
             \<and> (95 \<le> polarAngle \<longrightarrow> sunIntensityAt base polarAngle = 0)
             \<and> (75 < polarAngle \<and> polarAngle < 95 \<longrightarrow>
                  sunIntensityAt base polarAngle
                    = base * ((cos ((polarAngle - 75) / (95 - 75) * pi) + 1) / 2))
             \<and> (\<forall>lower. 0 \<le> base \<and> polarAngle \<le> lower \<longrightarrow>
                  sunIntensityAt base lower \<le> sunIntensityAt base polarAngle))"
proof -
  have "map_option intensity (sun (stateOf (updateSunTracking g t c)))
           = Some (map_option (sunIntensityAt (baseSunIntensity c))
               (sunPolarAngle (sunValues (stateOf (updateSunTracking g t c)))))"
    by (simp add: updateSunTracking_effect [OF assms])
  moreover have "polarAngle \<le> 75 \<longrightarrow> sunIntensityAt base polarAngle = base" for base polarAngle
    by (simp add: sunIntensityAt_def fadeStartAngle_def)
  moreover have "95 \<le> polarAngle \<longrightarrow> sunIntensityAt base polarAngle = 0" for base polarAngle
    by (simp add: sunIntensityAt_def fadeStartAngle_def fadeEndAngle_def)
  moreover have "75 < polarAngle \<and> polarAngle < 95 \<longrightarrow>
      sunIntensityAt base polarAngle = base * ((cos ((polarAngle - 75) / (95 - 75) * pi) + 1) / 2)"
    for base polarAngle
    by (simp add: sunIntensityAt_def fadeStartAngle_def fadeEndAngle_def fadeFactor_def
        fadeProgress_def)
  moreover have "0 \<le> base \<and> polarAngle \<le> lower \<longrightarrow>
      sunIntensityAt base lower \<le> sunIntensityAt base polarAngle" for base polarAngle lower
    using sunIntensityAt_antimono [of base polarAngle lower] by simp
  ultimately show ?thesis by blast
qed

theorem tracked_sun_intensity_witness:
  "sun exampleSunComposer = Some \<lparr>sun_oid = 1, intensity = Some (72 / 10),
      azimuthalAngleRad = Some 0, polarAngleRad = Some 0\<rparr>
   \<and> map_option intensity (sun (stateOf (updateSunTracking alwaysCompletes 50 exampleSunComposer)))
       = Some (Some (72 / 10))
   \<and> (75 :: real) \<le> 75 \<and> sunIntensityAt 1 75 = 1
   \<and> (95 :: real) \<le> 95 \<and> sunIntensityAt 1 95 = 0
   \<and> (75 :: real) < 85 \<and> (85 :: real) < 95 \<and> sunIntensityAt 1 85 = 1 / 2
   \<and> (0 :: real) \<le> 1 \<and> (80 :: real) \<le> 85 \<and> sunIntensityAt 1 85 \<le> sunIntensityAt 1 80"
proof -
  note th = tracked_sun_intensity [OF exampleSunComposer_fields(1), of alwaysCompletes 50]
  note first = th [THEN conjunct1]
  note rest = th [THEN conjunct2]
  have polar: "sunPolarAngle (sunValues (stateOf (updateSunTracking alwaysCompletes 50 exampleSunComposer)))
      = Some 50"
    by (simp add: updateSunTracking_effect [OF exampleSunComposer_fields(1)] example_progress
      polarAngleAt_values)
  have high: "sunIntensityAt (72 / 10) 50 = 72 / 10"
    using rest [THEN spec [where x = "72 / 10"], THEN spec [where x = 50]] by simp
  have a: "map_option intensity (sun (stateOf (updateSunTracking alwaysCompletes 50 exampleSunComposer)))
       = Some (Some (72 / 10))"
    using first by (simp only: polar exampleSunComposer_fields(7) option.map high)
  have b: "sunIntensityAt 1 75 = 1"
    using rest [THEN spec [where x = 1], THEN spec [where x = 75]] by simp
  have c: "sunIntensityAt 1 95 = 0"
    using rest [THEN spec [where x = 1], THEN spec [where x = 95]] by simp
  have d: "sunIntensityAt 1 85 = 1 / 2"
    using rest [THEN spec [where x = 1], THEN spec [where x = 85]] by simp
  have e: "sunIntensityAt 1 85 \<le> sunIntensityAt 1 80"
    using rest [THEN spec [where x = 1], THEN spec [where x = 80]] by simp
  show ?thesis
    using a b c d e exampleSunComposer_fields(1) by simp
qed

text \<open>
  C6 as stated fails for a negative base intensity: from the polar angle 245/3 to the
  polar angle 85, both inside the fade zone, the intensity rises from -3/4 to -1/2.
\<close>

theorem negative_base_intensity_counterexample:
  "\<not> sunIntensityAt (- 1) 85 \<le> sunIntensityAt (- 1) (245 / 3)"
  by (simp add: sunIntensityAt_def fadeFactor_def fadeProgress_def fadeStartAngle_def
      fadeEndAngle_def cos_60)

section \<open>Rendering\<close>

lemma updateAtmosphericSky_passes:
  "effectComposerPasses (stateOf (updateAtmosphericSky g c)) = effectComposerPasses c"
  by (simp_all add: updateAtmosphericSky_def Let_def
      split: option.split prod.split completion.split)

lemma updateSunTracking_passes:
  "effectComposerPasses (stateOf (updateSunTracking g t c)) = effectComposerPasses c"
  by (simp add: updateSunTracking_def syncSunWithSky_def Let_def updateAtmosphericSky_passes
      split: option.split)

lemma render_outcome:
  "render g t c = Done c' \<Longrightarrow> rendered c' = rendered c @ [RendererRender]"
  "render g t c = Raised c' \<Longrightarrow> rendered c' = rendered c"
proof -
  define r where "r = (if sunTrackingEnabled c \<and> sun c \<noteq> None then updateSunTracking g t c else Done c)"
  have kept: "rendered (stateOf r) = rendered c"
    by (cases "sun c") (auto simp: r_def updateSunTracking_effect)
  show "render g t c = Done c' \<Longrightarrow> rendered c' = rendered c @ [RendererRender]"
    using kept unfolding render_def r_def [symmetric] by (cases r) auto
  show "render g t c = Raised c' \<Longrightarrow> rendered c' = rendered c"
    using kept unfolding render_def r_def [symmetric] by (cases r) auto
qed

lemma render_tracking_completes:
  assumes "sunTrackingEnabled c" and "sun c = Some s"
  shows "render alwaysCompletes t c =
     Done ((stateOf (updateSunTracking alwaysCompletes t c))
        \<lparr>toneMappingExposure := 15 / 100, toneMapping := ACESFilmicToneMapping,
         rendered := rendered c @ [RendererRender]\<rparr>)"
proof -
  have "render alwaysCompletes t c =
      andThen (Done (stateOf (updateSunTracking alwaysCompletes t c)))
       (\<lambda>c1. Done (c1\<lparr>toneMappingExposure := 15 / 100,
                       toneMapping := ACESFilmicToneMapping,
                       rendered := rendered c1 @ [RendererRender]\<rparr>))"
    using assms updateSunTracking_completes [of t c] by (simp add: render_def)
  then show ?thesis
    by (simp add: updateSunTracking_effect [OF assms(2)])
qed

text \<open>
  C3, on the code. \<^verbatim>\<open>render\<close> advances the sun tracking and then draws the frame
  with one call of \<^verbatim>\<open>renderer.render\<close>; the passes that the constructor added to
  the effect composer are not run.
\<close>

theorem render_bypasses_effect_composer:
  "rendered (stateOf (render alwaysCompletes 50 exampleSunComposer)) = [RendererRender]
   \<and> sunPolarAngle (sunValues (stateOf (render alwaysCompletes 50 exampleSunComposer))) = Some 50
   \<and> effectComposerPasses (stateOf (render alwaysCompletes 50 exampleSunComposer))
       = [RenderPass, FxaaPass, BloomPass, ToneMappingPass, BcsPass, GaussGrainPass]"
proof -
  have "effectComposerPasses exampleSunComposer
       = [RenderPass, FxaaPass, BloomPass, ToneMappingPass, BcsPass, GaussGrainPass]"
    by (simp add: exampleSunComposer_def exampleComposer_def)
  then show ?thesis
    by (simp add: render_tracking_completes [OF exampleSunComposer_fields(5) exampleSunComposer_fields(1)]
        exampleSunComposer_fields updateSunTracking_effect [OF exampleSunComposer_fields(1)]
        example_progress polarAngleAt_values updateSunTracking_passes)
qed

text \<open>
  C10, as the code has it. The first advance sets the start time to 50. For a time below
  50 and a positive cycle duration the elapsed time is negative and the cycle progress
  \<open>p\<close> lies in the interval from -1 (excluded) to 0 (included); it is 0 exactly when the
  elapsed time is a whole multiple of the cycle duration. The azimuth \<open>90 + p * 360\<close> is
  stored unchanged by the wrap; it is below 90 when \<open>p\<close> is negative and negative when
  \<open>p\<close> is below -1/4.
\<close>

theorem first_advance_before_start:
  assumes "sun c = Some s" and "sunStartTime c = 0" and "t < 50" and "0 < sunCycleDuration c"
  shows "sunStartTime (stateOf (updateSunTracking g t c)) = 50
       \<and> elapsedTime t 50 < 0
       \<and> (\<exists>p. cycleProgress (elapsedTime t 50) (sunCycleDuration c) = Some p
              \<and> - 1 < p \<and> p \<le> 0
              \<and> (p = 0 \<longleftrightarrow> (\<exists>k::int. elapsedTime t 50 = of_int k * sunCycleDuration c))
              \<and> sunAzimuthalAngle (sunValues (stateOf (updateSunTracking g t c)))
                  = Some (90 + p * 360)
              \<and> (p < 0 \<longrightarrow> 90 + p * 360 < 90)
              \<and> (p < - (1 / 4) \<longrightarrow> 90 + p * 360 < 0))"
proof -
  define d where "d = sunCycleDuration c"
  have d: "0 < d" using assms(4) by (simp add: d_def)
  have start: "trackingStart c = 50"
    using assms(2) by (simp add: trackingStart_def)
  have neg: "elapsedTime t 50 < 0"
    using assms(3) by (simp add: elapsedTime_def)
  obtain r where r: "jsRemainder (elapsedTime t 50) d = Some r" "- d < r" "r \<le> 0"
    "r = 0 \<longleftrightarrow> (\<exists>k::int. elapsedTime t 50 = of_int k * d)"
    using jsRemainder_negative [OF neg d] by blast
  define p where "p = r / d"
  have prog: "cycleProgress (elapsedTime t 50) d = Some p"
    by (simp add: cycleProgress_def r(1) p_def)
  have range: "- 1 < p" "p \<le> 0"
    using r(2,3) d by (simp_all add: p_def field_simps)
  have zero: "p = 0 \<longleftrightarrow> (\<exists>k::int. elapsedTime t 50 = of_int k * d)"
    using r(4) d by (simp add: p_def)
  have "\<bar>90 + p * 360\<bar> < 360"
    using range by (simp add: abs_less_iff)
  then have wrap: "jsRemainder (90 + p * 360) 360 = Some (90 + p * 360)"
    by (rule jsRemainder_small)
  have stored: "sunAzimuthalAngle (sunValues (stateOf (updateSunTracking g t c)))
      = Some (90 + p * 360)"
    using prog wrap
    by (simp add: updateSunTracking_effect [OF assms(1)] trackingProgress_def start d_def
        azimuthalAngleAt_def)
  have st: "sunStartTime (stateOf (updateSunTracking g t c)) = 50"
    by (simp add: updateSunTracking_effect [OF assms(1)] start)
  have small: "(p < 0 \<longrightarrow> 90 + p * 360 < 90) \<and> (p < - (1 / 4) \<longrightarrow> 90 + p * 360 < 0)"
    by auto
  show ?thesis
    using st neg prog range zero stored small unfolding d_def by blast
qed

theorem first_advance_before_start_witness:
  "sun exampleSunComposer = Some \<lparr>sun_oid = 1, intensity = Some (72 / 10),
      azimuthalAngleRad = Some 0, polarAngleRad = Some 0\<rparr>
   \<and> sunStartTime exampleSunComposer = 0
   \<and> (20 :: real) < 50
   \<and> 0 < sunCycleDuration exampleSunComposer
   \<and> sunStartTime (stateOf (updateSunTracking alwaysCompletes 20 exampleSunComposer)) = 50
   \<and> cycleProgress (elapsedTime 20 50) (sunCycleDuration exampleSunComposer) = Some (- 3 / 5)
   \<and> sunAzimuthalAngle (sunValues (stateOf (updateSunTracking alwaysCompletes 20 exampleSunComposer)))
       = Some (- 126)"
proof -
  have lt: "(20 :: real) < 50" by simp
  have pos: "0 < sunCycleDuration exampleSunComposer"
    by (simp add: exampleSunComposer_fields)
  have prog: "cycleProgress (elapsedTime 20 50) (sunCycleDuration exampleSunComposer)
      = Some (- 3 / 5)"
    by (simp add: exampleSunComposer_fields cycleProgress_def elapsedTime_def jsRemainder_def
        truncate0_def)
  from first_advance_before_start [OF exampleSunComposer_fields(1) exampleSunComposer_fields(2)
      lt pos, of alwaysCompletes]
  obtain p where st: "sunStartTime (stateOf (updateSunTracking alwaysCompletes 20 exampleSunComposer)) = 50"
    and p: "cycleProgress (elapsedTime 20 50) (sunCycleDuration exampleSunComposer) = Some p"
    and az: "sunAzimuthalAngle (sunValues (stateOf (updateSunTracking alwaysCompletes 20 exampleSunComposer)))
       = Some (90 + p * 360)"
    by blast
  from p prog have "p = - 3 / 5" by simp
  with az have "sunAzimuthalAngle (sunValues (stateOf (updateSunTracking alwaysCompletes 20 exampleSunComposer)))
       = Some (- 126)" by simp
  with st prog pos show ?thesis
    by (simp add: exampleSunComposer_fields)
qed

text \<open>
  C10 as stated fails at time 0 with the default cycle of 10 seconds: the elapsed time is
  -10, a whole multiple of the cycle, and the progress is 0, not negative.
\<close>

theorem progress_not_negative_counterexample:
  "sunStartTime exampleSunComposer = 0
   \<and> sunCycleDuration exampleSunComposer = 10
   \<and> elapsedTime 0 50 = - 10
   \<and> cycleProgress (elapsedTime 0 50) 10 = Some 0
   \<and> sunAzimuthalAngle (sunValues (stateOf (updateSunTracking alwaysCompletes 0 exampleSunComposer)))
       = Some 90"
  by (simp add: updateSunTracking_effect [OF exampleSunComposer_fields(1)] example_progress
      exampleSunComposer_fields azimuthalAngleAt_def jsRemainder_def truncate0_def
      cycleProgress_def elapsedTime_def)

section \<open>Effects of the configuration update\<close>






lemma updateAtmosphericSky_environment:
  assumes "sky c = Some sk" and "skyEnvironmentGenerator c = Some gen"
    and "g (hideOthers (sky_oid sk) (children (scene c))) = Completes"
  shows "\<exists>c1. updateAtmosphericSky g c = Done c1
            \<and> environment (scene c1) = Some (RenderTargetTexture 512)
            \<and> background (scene c1) = None
            \<and> children (scene c1) = children (scene c)"
  using assms
  by (simp add: updateAtmosphericSky_def Let_def split_beta generateEnvironmentMap_def
      restore_after_hide split: option.split)




section \<open>Effects of the value updates\<close>

lemma setFog_frame:
  "envValues (setFog c) = envValues c"
  "sunValues (setFog c) = sunValues c"
  "sun (setFog c) = sun c"
  "sky (setFog c) = sky c"
  "skyEnvironmentGenerator (setFog c) = skyEnvironmentGenerator c"
  "environmentConfiguration (setFog c) = environmentConfiguration c"
  "extrasBloom (setFog c) = extrasBloom c"
  "sunTrackingEnabled (setFog c) = sunTrackingEnabled c"
  "sunTrackingSpeed (setFog c) = sunTrackingSpeed c"
  "sunCycleDuration (setFog c) = sunCycleDuration c"
  "sunStartTime (setFog c) = sunStartTime c"
  "environment (scene (setFog c)) = environment (scene c)"
  "background (scene (setFog c)) = background (scene c)"
  by (simp_all add: setFog_def)

lemma setAmbientLight_frame:
  "envValues (setAmbientLight c) = envValues c"
  "sunValues (setAmbientLight c) = sunValues c"
  "sun (setAmbientLight c) = sun c"
  "sky (setAmbientLight c) = sky c"
  "skyEnvironmentGenerator (setAmbientLight c) = skyEnvironmentGenerator c"
  "environmentConfiguration (setAmbientLight c) = environmentConfiguration c"
  "extrasBloom (setAmbientLight c) = extrasBloom c"
  "sunTrackingEnabled (setAmbientLight c) = sunTrackingEnabled c"
  "sunTrackingSpeed (setAmbientLight c) = sunTrackingSpeed c"
  "sunCycleDuration (setAmbientLight c) = sunCycleDuration c"
  "sunStartTime (setAmbientLight c) = sunStartTime c"
  "environment (scene (setAmbientLight c)) = environment (scene c)"
  "background (scene (setAmbientLight c)) = background (scene c)"
  by (simp_all add: setAmbientLight_def Let_def sceneAdd_def sceneRemove_def split: option.split)

lemma updateSkyboxRotation_frame:
  "envValues (updateSkyboxRotation c) = envValues c"
  "sunValues (updateSkyboxRotation c) = sunValues c"
  "sun (updateSkyboxRotation c) = sun c"
  "sky (updateSkyboxRotation c) = sky c"
  "skyEnvironmentGenerator (updateSkyboxRotation c) = skyEnvironmentGenerator c"
  "environmentConfiguration (updateSkyboxRotation c) = environmentConfiguration c"
  "extrasBloom (updateSkyboxRotation c) = extrasBloom c"
  "sunTrackingEnabled (updateSkyboxRotation c) = sunTrackingEnabled c"
  "sunTrackingSpeed (updateSkyboxRotation c) = sunTrackingSpeed c"
  "sunCycleDuration (updateSkyboxRotation c) = sunCycleDuration c"
  "sunStartTime (updateSkyboxRotation c) = sunStartTime c"
  "environment (scene (updateSkyboxRotation c)) = environment (scene c)"
  "background (scene (updateSkyboxRotation c)) = background (scene c)"
  by (simp_all add: updateSkyboxRotation_def)

lemma updateFogValues_frame:
  "sunValues (updateFogValues c) = sunValues c"
  "sun (updateFogValues c) = sun c"
  "sky (updateFogValues c) = sky c"
  "skyEnvironmentGenerator (updateFogValues c) = skyEnvironmentGenerator c"
  "environmentConfiguration (updateFogValues c) = environmentConfiguration c"
  "extrasBloom (updateFogValues c) = extrasBloom c"
  "sunTrackingEnabled (updateFogValues c) = sunTrackingEnabled c"
  "sunTrackingSpeed (updateFogValues c) = sunTrackingSpeed c"
  "sunCycleDuration (updateFogValues c) = sunCycleDuration c"
  "sunStartTime (updateFogValues c) = sunStartTime c"
  "environment (scene (updateFogValues c)) = environment (scene c)"
  "background (scene (updateFogValues c)) = background (scene c)"
  by (simp_all add: updateFogValues_def Let_def setFog_frame)

lemma updateSkyboxAndEnvValues_frame:
  "sunValues (updateSkyboxAndEnvValues c) = sunValues c"
  "sun (updateSkyboxAndEnvValues c) = sun c"
  "sky (updateSkyboxAndEnvValues c) = sky c"
  "skyEnvironmentGenerator (updateSkyboxAndEnvValues c) = skyEnvironmentGenerator c"
  "environmentConfiguration (updateSkyboxAndEnvValues c) = environmentConfiguration c"
  "extrasBloom (updateSkyboxAndEnvValues c) = extrasBloom c"
  "sunTrackingEnabled (updateSkyboxAndEnvValues c) = sunTrackingEnabled c"
  "sunTrackingSpeed (updateSkyboxAndEnvValues c) = sunTrackingSpeed c"
  "sunCycleDuration (updateSkyboxAndEnvValues c) = sunCycleDuration c"
  "sunStartTime (updateSkyboxAndEnvValues c) = sunStartTime c"
  "environment (scene (updateSkyboxAndEnvValues c)) = environment (scene c)"
  "background (scene (updateSkyboxAndEnvValues c)) = background (scene c)"
  by (simp_all add: updateSkyboxAndEnvValues_def Let_def updateSkyboxRotation_frame
      updateSkyboxRotation_def split: option.split)

lemma updateBloomValues_frame:
  "envValues (updateBloomValues c) = envValues c"
  "sunValues (updateBloomValues c) = sunValues c"
  "sun (updateBloomValues c) = sun c"
  "sky (updateBloomValues c) = sky c"
  "skyEnvironmentGenerator (updateBloomValues c) = skyEnvironmentGenerator c"
  "environmentConfiguration (updateBloomValues c) = environmentConfiguration c"
  "sunTrackingEnabled (updateBloomValues c) = sunTrackingEnabled c"
  "sunTrackingSpeed (updateBloomValues c) = sunTrackingSpeed c"
  "sunCycleDuration (updateBloomValues c) = sunCycleDuration c"
  "sunStartTime (updateBloomValues c) = sunStartTime c"
  "environment (scene (updateBloomValues c)) = environment (scene c)"
  "background (scene (updateBloomValues c)) = background (scene c)"
  by (simp_all add: updateBloomValues_def Let_def split: option.split)

lemma updateAmbientLightValues_frame:
  "sunValues (updateAmbientLightValues c) = sunValues c"
  "sun (updateAmbientLightValues c) = sun c"
  "sky (updateAmbientLightValues c) = sky c"
  "skyEnvironmentGenerator (updateAmbientLightValues c) = skyEnvironmentGenerator c"
  "environmentConfiguration (updateAmbientLightValues c) = environmentConfiguration c"
  "extrasBloom (updateAmbientLightValues c) = extrasBloom c"
  "sunTrackingEnabled (updateAmbientLightValues c) = sunTrackingEnabled c"
  "sunTrackingSpeed (updateAmbientLightValues c) = sunTrackingSpeed c"
  "sunCycleDuration (updateAmbientLightValues c) = sunCycleDuration c"
  "sunStartTime (updateAmbientLightValues c) = sunStartTime c"
  "environment (scene (updateAmbientLightValues c)) = environment (scene c)"
  "background (scene (updateAmbientLightValues c)) = background (scene c)"
  by (simp_all add: updateAmbientLightValues_def setAmbientLight_frame split: option.split)

lemma updateSunValues_frame:
  "envValues (updateSunValues c) = envValues c"
  "sky (updateSunValues c) = sky c"
  "skyEnvironmentGenerator (updateSunValues c) = skyEnvironmentGenerator c"
  "environmentConfiguration (updateSunValues c) = environmentConfiguration c"
  "extrasBloom (updateSunValues c) = extrasBloom c"
  "environment (scene (updateSunValues c)) = environment (scene c)"
  "background (scene (updateSunValues c)) = background (scene c)"
  by (simp_all add: updateSunValues_def Let_def enableSunTracking_def disableSunTracking_def
      split: option.split)


lemma updateFogValues_envValues:
  "envValues (updateFogValues c) =
     (envValues c)
       \<lparr>fogNear := (case fogNearOf (environmentConfiguration c) of
                      Some v \<Rightarrow> v | None \<Rightarrow> fogNear (envValues c)),
        fogFar := (case fogFarOf (environmentConfiguration c) of
                     Some v \<Rightarrow> v | None \<Rightarrow> fogFar (envValues c)),
        fogColor := (case fogColorOf (environmentConfiguration c) of
                       Some v \<Rightarrow> v | None \<Rightarrow> fogColor (envValues c))\<rparr>"
  by (simp add: updateFogValues_def Let_def setFog_frame split: option.split)

lemma updateAmbientLightValues_envValues:
  "envValues (updateAmbientLightValues c) =
     (envValues c)
       \<lparr>ambientLightIntensity :=
          (case ambientLightIntensityOf (environmentConfiguration c) of
             Some v \<Rightarrow> v | None \<Rightarrow> ambientLightIntensity (envValues c))\<rparr>"
  by (simp add: updateAmbientLightValues_def setAmbientLight_frame split: option.split)

lemma updateSkyboxAndEnvValues_envValues:
  "envValues (updateSkyboxAndEnvValues c) =
     (envValues c)
       \<lparr>envMapIntensity := (case envMapIntensityOf (environmentConfiguration c) of
                              Some v \<Rightarrow> v | None \<Rightarrow> envMapIntensity (envValues c)),
        skyboxIntensity := (case skyboxIntensityOf (environmentConfiguration c) of
                              Some v \<Rightarrow> v | None \<Rightarrow> skyboxIntensity (envValues c)),
        skyboxBlurriness := (case skyboxBlurrinessOf (environmentConfiguration c) of
                               Some v \<Rightarrow> v | None \<Rightarrow> skyboxBlurriness (envValues c)),
        skyboxAzimuthalAngle := (case skyboxAzimuthalAngleOf (environmentConfiguration c) of
                                   Some v \<Rightarrow> v | None \<Rightarrow> skyboxAzimuthalAngle (envValues c)),
        skyboxPolarAngle := (case skyboxPolarAngleOf (environmentConfiguration c) of
                               Some v \<Rightarrow> v | None \<Rightarrow> skyboxPolarAngle (envValues c))\<rparr>"
  by (simp add: updateSkyboxAndEnvValues_def Let_def updateSkyboxRotation_def
      split: option.split)

lemma updateBloomValues_bloom:
  "extrasBloom (updateBloomValues c)
     = (case bloomIntensityOf (environmentConfiguration c) of
          Some v \<Rightarrow> v | None \<Rightarrow> extrasBloom c)"
  "bloomEffectIntensity (updateBloomValues c) = extrasBloom (updateBloomValues c)"
  by (simp_all add: updateBloomValues_def Let_def split: option.split)

lemma updateSunValues_sunValues:
  "sunValues (updateSunValues c) =
     (sunValues c)
       \<lparr>sunIntensity := (case sunIntensityOf (environmentConfiguration c) of
                           Some v \<Rightarrow> v | None \<Rightarrow> sunIntensity (sunValues c)),
        sunAzimuthalAngle := (case sunAzimuthalAngleOf (environmentConfiguration c) of
                                Some v \<Rightarrow> Some v | None \<Rightarrow> sunAzimuthalAngle (sunValues c)),
        sunPolarAngle := (case sunPolarAngleOf (environmentConfiguration c) of
                            Some v \<Rightarrow> Some v | None \<Rightarrow> sunPolarAngle (sunValues c))\<rparr>"
  by (simp add: updateSunValues_def Let_def enableSunTracking_def disableSunTracking_def
      split: option.split)





section \<open>The state after updateEnvironmentConfiguration\<close>

lemma update_done:
  assumes "selectSkybox g (c\<lparr>environmentConfiguration := Some cfg\<rparr>) = Done c1"
  shows "updateEnvironmentConfiguration g cfg c =
     Done (updateFogValues (updateSunValues (updateBloomValues
        (updateAmbientLightValues (updateSkyboxAndEnvValues c1)))))"
  using assms by (simp add: updateEnvironmentConfiguration_def)

lemma update_raised:
  assumes "selectSkybox g (c\<lparr>environmentConfiguration := Some cfg\<rparr>) = Raised c1"
  shows "updateEnvironmentConfiguration g cfg c = Raised c1"
  using assms by (simp add: updateEnvironmentConfiguration_def)

lemmas value_frames = setFog_frame setAmbientLight_frame updateSkyboxRotation_frame
  updateFogValues_frame updateSkyboxAndEnvValues_frame updateBloomValues_frame
  updateAmbientLightValues_frame updateSunValues_frame

lemmas value_effects = updateFogValues_envValues updateAmbientLightValues_envValues
  updateSkyboxAndEnvValues_envValues updateBloomValues_bloom updateSunValues_sunValues



lemma update_kept_fields:
  fixes g cfg c
  defines "c1 \<equiv> stateOf (selectSkybox g (c\<lparr>environmentConfiguration := Some cfg\<rparr>))"
    and "c' \<equiv> stateOf (updateEnvironmentConfiguration g cfg c)"
  shows "turbidity (envValues c') = turbidity (envValues c1)"
    and "rayleigh (envValues c') = rayleigh (envValues c1)"
    and "mieCoefficient (envValues c') = mieCoefficient (envValues c1)"
    and "mieDirectionalG (envValues c') = mieDirectionalG (envValues c1)"
    and "sky c' = sky c1"
    and "environment (scene c') = environment (scene c1)"
    and "background (scene c') = background (scene c1)"
proof -
  show "turbidity (envValues c') = turbidity (envValues c1)"
    "rayleigh (envValues c') = rayleigh (envValues c1)"
    "mieCoefficient (envValues c') = mieCoefficient (envValues c1)"
    "mieDirectionalG (envValues c') = mieDirectionalG (envValues c1)"
    "sky c' = sky c1"
    "environment (scene c') = environment (scene c1)"
    "background (scene c') = background (scene c1)"
    unfolding c1_def c'_def
    by (cases "selectSkybox g (c\<lparr>environmentConfiguration := Some cfg\<rparr>)";
        simp add: update_done update_raised value_frames value_effects)+
qed





lemma update_environment_no_source:
  assumes "cfg_skybox cfg = Some sb" and "cfg_source sb = NoSource"
  shows "environment (scene (stateOf (updateEnvironmentConfiguration g cfg c)))
           = environment (scene c)"
    and "background (scene (stateOf (updateEnvironmentConfiguration g cfg c)))
           = background (scene c)"
proof -
  have sel: "selectSkybox g (c\<lparr>environmentConfiguration := Some cfg\<rparr>)
      = Done (c\<lparr>environmentConfiguration := Some cfg\<rparr>)"
    using assms by (simp add: selectSkybox_def skyboxOf_def)
  show "environment (scene (stateOf (updateEnvironmentConfiguration g cfg c)))
           = environment (scene c)"
    and "background (scene (stateOf (updateEnvironmentConfiguration g cfg c)))
           = background (scene c)"
    by (simp_all add: update_kept_fields sel)
qed



section \<open>Given values under the update\<close>



lemma update_atmospheric_done:
  assumes "sky c = Some sk" and "skyEnvironmentGenerator c = Some gen"
    and "cfg_skybox cfg = Some sb" and "cfg_source sb = Atmospheric a"
    and "g (hideOthers (sky_oid sk) (children (scene c))) = Completes"
  shows "\<exists>c1. selectSkybox g (c\<lparr>environmentConfiguration := Some cfg\<rparr>) = Done c1"
proof -
  obtain c1 where "updateAtmosphericSky g (c\<lparr>environmentConfiguration := Some cfg\<rparr>) = Done c1"
    using updateAtmosphericSky_environment [of "c\<lparr>environmentConfiguration := Some cfg\<rparr>" sk gen g]
      assms by auto
  then show ?thesis
    using assms(3,4) by (simp add: selectSkybox_def skyboxOf_def)
qed



section \<open>Tracking switch, sun object and sun position under the update\<close>






















section \<open>Example states\<close>
















section \<open>Omitted fields keep their stored values\<close>




section \<open>Given values are stored as given\<close>




section \<open>The example composers are constructed states\<close>

lemma no_config:
  "fogNearOf None = None" "fogFarOf None = None" "fogColorOf None = None"
  "envMapIntensityOf None = None" "skyboxIntensityOf None = None"
  "skyboxBlurrinessOf None = None" "skyboxAzimuthalAngleOf None = None"
  "skyboxPolarAngleOf None = None" "ambientLightIntensityOf None = None"
  "bloomIntensityOf None = None" "sunIntensityOf None = None"
  "sunAzimuthalAngleOf None = None" "sunPolarAngleOf None = None" "sunOf None = None"
  "trackingOf None = None" "atmosphericOf None = None" "skyboxOf None = None"
  by (simp_all add: fogNearOf_def fogFarOf_def fogColorOf_def fogOf_def
      envMapIntensityOf_def skyboxIntensityOf_def skyboxBlurrinessOf_def
      skyboxAzimuthalAngleOf_def skyboxPolarAngleOf_def skyboxOf_def ambientLightIntensityOf_def
      bloomIntensityOf_def sunIntensityOf_def sunAzimuthalAngleOf_def sunPolarAngleOf_def
      sunOf_def trackingOf_def atmosphericOf_def)

lemma step_values:
  assumes "environmentConfiguration c = None"
  shows "updateSkyboxAndEnvValues c =
           c\<lparr>scene := (scene c)\<lparr>environmentIntensity := envMapIntensity (envValues c),
                                 backgroundIntensity := skyboxIntensity (envValues c),
                                 backgroundBlurriness := skyboxBlurriness (envValues c)\<rparr>\<rparr>"
    and "updateAmbientLightValues c = setAmbientLight c"
    and "updateFogValues c = setFog c"
    and "updateSunValues c = c"
  using assms by (simp_all add: updateSkyboxAndEnvValues_def updateAmbientLightValues_def
      updateFogValues_def updateSunValues_def no_config Let_def split: option.split)

lemma step_sky:
  assumes "sky c = Some sk" and "skyEnvironmentGenerator c = Some gen"
    and "environmentConfiguration c = None"
  shows "updateAtmosphericSky alwaysCompletes c =
     Done (c\<lparr>sky := Some (sk\<lparr>uniforms :=
                  (case sun c of
                     Some _ \<Rightarrow>
                       (uniforms sk)
                         \<lparr>u_turbidity := turbidity (envValues c),
                          u_rayleigh := rayleigh (envValues c),
                          u_mieCoefficient := mieCoefficient (envValues c),
                          u_mieDirectionalG := mieDirectionalG (envValues c),
                          u_sunPosition := sunPositionVector (sunValues c)\<rparr>
                   | None \<Rightarrow>
                       (uniforms sk)
                         \<lparr>u_turbidity := turbidity (envValues c),
                          u_rayleigh := rayleigh (envValues c),
                          u_mieCoefficient := mieCoefficient (envValues c),
                          u_mieDirectionalG := mieDirectionalG (envValues c)\<rparr>)\<rparr>),
             skyEnvironmentGenerator :=
               Some (fst (generateEnvironmentMap alwaysCompletes gen (sky_oid sk)
                  (children (scene c)) (cameraPosition c) 512)),
             scene := (scene c)
               \<lparr>environment := Some (RenderTargetTexture 512),
                environmentIntensity := envMapIntensity (envValues c),
                environmentRotation := skyboxEuler (envValues c),
                background := None,
                backgroundIntensity := skyboxIntensity (envValues c),
                backgroundBlurriness := skyboxBlurriness (envValues c),
                backgroundRotation := skyboxEuler (envValues c)\<rparr>\<rparr>)"
  using assms
  by (simp add: updateAtmosphericSky_def Let_def split_beta no_config
      generateEnvironmentMap_def alwaysCompletes_def restore_after_hide split: option.split)

lemma constructor_gives_exampleComposer:
  "constructor alwaysCompletes exampleValues emptyScene (0, 0, 0) False None
     = Done exampleComposer"
proof -
  define c0 :: composer where "c0 =
     \<lparr>scene = emptyScene, cameraPosition = (0, 0, 0),
                toneMappingExposure = 1, toneMapping = 5,
                rendered = [], effectComposerPasses = [],
                bloomEffectIntensity = 1 / 10, ambientLight = None,
                environmentConfiguration = None,
                src_hdrJpgUrl = None, src_hdrUrl = None, latestPromise = None,
                nextPromise = 0, startedLoads = [],
                sky = None, skyEnvironmentGenerator = None, sun = None, spawnSun = False,
                sunTrackingEnabled = False, sunTrackingSpeed = 1 / 100,
                sunCycleDuration = 30, sunStartTime = 0,
                envValues = initialEnvValues, sunValues = initialSunValues,
                extrasBloom = 1 / 10, nextOid = 0\<rparr>"
  define c2 where "c2 = updateFogValues (updateAmbientLightValues (updateSkyboxAndEnvValues c0))"
  define c5 where "c5 = c2\<lparr>bloomEffectIntensity := extrasBloom c2,
                  effectComposerPasses := addPasses False False\<rparr>
       \<lparr>skyEnvironmentGenerator :=
                    Some \<lparr>renderTarget = None, cubeCameraPosition = None,
                          disposedTargets = []\<rparr>\<rparr>"
  have ctor: "constructor alwaysCompletes exampleValues emptyScene (0, 0, 0) False None =
      andThen (initializeAtmosphericSky alwaysCompletes c5)
           (\<lambda>c6. andThen (selectSkybox alwaysCompletes c6) (\<lambda>c7. Done (updateSunValues c7)))"
    by (simp add: constructor_def Let_def exampleValues_def no_config c5_def c2_def c0_def)
  have c2: "c2 = c0\<lparr>scene := emptyScene
        \<lparr>children := [\<lparr>oid = 0, visible = True\<rparr>],
         fog := Some \<lparr>fog_color = (7 / 10, 7 / 10, 7 / 10), fog_near = 1000, fog_far = 1000\<rparr>\<rparr>,
       ambientLight := Some \<lparr>light_oid = 0, light_color = (1, 1, 1), light_intensity = 0\<rparr>,
       nextOid := 1\<rparr>"
    unfolding c2_def
    by (simp add: step_values c0_def emptyScene_def setAmbientLight_def setFog_def sceneAdd_def
        initialEnvValues_def Let_def)
  have c5: "c5 = c0\<lparr>scene := emptyScene
        \<lparr>children := [\<lparr>oid = 0, visible = True\<rparr>],
         fog := Some \<lparr>fog_color = (7 / 10, 7 / 10, 7 / 10), fog_near = 1000, fog_far = 1000\<rparr>\<rparr>,
       ambientLight := Some \<lparr>light_oid = 0, light_color = (1, 1, 1), light_intensity = 0\<rparr>,
       nextOid := 1,
       effectComposerPasses :=
         [RenderPass, FxaaPass, BloomPass, ToneMappingPass, BcsPass, GaussGrainPass],
       skyEnvironmentGenerator :=
         Some \<lparr>renderTarget = None, cubeCameraPosition = None, disposedTargets = []\<rparr>\<rparr>"
    unfolding c5_def c2 by (simp add: c0_def addPasses_def)
  define c5' where "c5' = c5\<lparr>sky := Some \<lparr>sky_oid = 1, uniforms = initialSkyUniforms\<rparr>,
              scene := sceneAdd 1 (scene c5), nextOid := 2\<rparr>"
  have init: "initializeAtmosphericSky alwaysCompletes c5 = updateAtmosphericSky alwaysCompletes c5'"
    by (simp add: initializeAtmosphericSky_def c5'_def c5 c0_def Let_def numeral_2_eq_2)
  have sky1: "updateAtmosphericSky alwaysCompletes c5' = Done exampleComposer"
    by (subst step_sky [where sk = "\<lparr>sky_oid = 1, uniforms = initialSkyUniforms\<rparr>"
          and gen = "\<lparr>renderTarget = None, cubeCameraPosition = None, disposedTargets = []\<rparr>"])
      (simp_all add: c5'_def c5 c0_def exampleComposer_def emptyScene_def sceneAdd_def
        initialEnvValues_def initialSkyUniforms_def generateEnvironmentMap_def Let_def
        skyboxEuler_def degToRad_def alwaysCompletes_def)
  have sky2: "updateAtmosphericSky alwaysCompletes exampleComposer = Done exampleComposer"
    by (subst step_sky [where sk = "\<lparr>sky_oid = 1, uniforms = initialSkyUniforms\<rparr>"
          and gen = "\<lparr>renderTarget = Some 512, cubeCameraPosition = Some (0, 0, 0),
             disposedTargets = []\<rparr>"])
      (simp_all add: exampleComposer_def initialEnvValues_def initialSkyUniforms_def
        generateEnvironmentMap_def Let_def skyboxEuler_def degToRad_def alwaysCompletes_def)
  have sel: "selectSkybox alwaysCompletes exampleComposer = Done exampleComposer"
    using sky2 by (simp add: selectSkybox_def no_config exampleComposer_def)
  have sunv: "updateSunValues exampleComposer = exampleComposer"
    by (rule step_values) (simp add: exampleComposer_def)
  show ?thesis
    by (simp add: ctor init sky1 sel sunv)
qed

lemma constructor_gives_exampleSunComposer:
  "constructor alwaysCompletes exampleValues emptyScene (0, 0, 0) True None
     = Done exampleSunComposer"
proof -
  define c0 :: composer where "c0 =
     \<lparr>scene = emptyScene, cameraPosition = (0, 0, 0),
                toneMappingExposure = 1, toneMapping = 5,
                rendered = [], effectComposerPasses = [],
                bloomEffectIntensity = 1 / 10, ambientLight = None,
                environmentConfiguration = None,
                src_hdrJpgUrl = None, src_hdrUrl = None, latestPromise = None,
                nextPromise = 0, startedLoads = [],
                sky = None, skyEnvironmentGenerator = None, sun = None, spawnSun = True,
                sunTrackingEnabled = False, sunTrackingSpeed = 1 / 100,
                sunCycleDuration = 30, sunStartTime = 0,
                envValues = initialEnvValues, sunValues = initialSunValues,
                extrasBloom = 1 / 10, nextOid = 0\<rparr>"
  define c2 where "c2 = updateFogValues (updateAmbientLightValues (updateSkyboxAndEnvValues c0))"
  define c3 where "c3 = c2\<lparr>bloomEffectIntensity := extrasBloom c2,
                  effectComposerPasses := addPasses False False\<rparr>"
  define c5 where "c5 =
     (enableSunTracking 1 10
        (c3\<lparr>sun := Some (\<lparr>sun_oid = 0, intensity = Some (72 / 10),
                   azimuthalAngleRad = Some 0, polarAngleRad = Some 0\<rparr>\<lparr>sun_oid := nextOid c3\<rparr>),
            scene := sceneAdd (nextOid c3) (scene c3),
            nextOid := Suc (nextOid c3)\<rparr>))
       \<lparr>skyEnvironmentGenerator :=
                    Some \<lparr>renderTarget = None, cubeCameraPosition = None,
                          disposedTargets = []\<rparr>\<rparr>"
  have ctor: "constructor alwaysCompletes exampleValues emptyScene (0, 0, 0) True None =
      andThen (initializeAtmosphericSky alwaysCompletes c5)
           (\<lambda>c6. andThen (selectSkybox alwaysCompletes c6) (\<lambda>c7. Done (updateSunValues c7)))"
    by (simp add: constructor_def Let_def exampleValues_def no_config c5_def c3_def c2_def c0_def)
  have c2: "c2 = c0\<lparr>scene := emptyScene
        \<lparr>children := [\<lparr>oid = 0, visible = True\<rparr>],
         fog := Some \<lparr>fog_color = (7 / 10, 7 / 10, 7 / 10), fog_near = 1000, fog_far = 1000\<rparr>\<rparr>,
       ambientLight := Some \<lparr>light_oid = 0, light_color = (1, 1, 1), light_intensity = 0\<rparr>,
       nextOid := 1\<rparr>"
    unfolding c2_def
    by (simp add: step_values c0_def emptyScene_def setAmbientLight_def setFog_def sceneAdd_def
        initialEnvValues_def Let_def)
  have c5: "c5 = c0\<lparr>scene := emptyScene
        \<lparr>children := [\<lparr>oid = 0, visible = True\<rparr>, \<lparr>oid = 1, visible = True\<rparr>],
         fog := Some \<lparr>fog_color = (7 / 10, 7 / 10, 7 / 10), fog_near = 1000, fog_far = 1000\<rparr>\<rparr>,
       ambientLight := Some \<lparr>light_oid = 0, light_color = (1, 1, 1), light_intensity = 0\<rparr>,
       nextOid := 2,
       effectComposerPasses :=
         [RenderPass, FxaaPass, BloomPass, ToneMappingPass, BcsPass, GaussGrainPass],
       sun := Some \<lparr>sun_oid = 1, intensity = Some (72 / 10), azimuthalAngleRad = Some 0,
                     polarAngleRad = Some 0\<rparr>,
       sunTrackingEnabled := True, sunTrackingSpeed := 1, sunCycleDuration := 10,
       skyEnvironmentGenerator :=
         Some \<lparr>renderTarget = None, cubeCameraPosition = None, disposedTargets = []\<rparr>\<rparr>"
    unfolding c5_def c3_def c2
    by (simp add: c0_def addPasses_def enableSunTracking_def sceneAdd_def emptyScene_def
        numeral_2_eq_2)
  define c5' where "c5' = c5\<lparr>sky := Some \<lparr>sky_oid = 2, uniforms = initialSkyUniforms\<rparr>,
              scene := sceneAdd 2 (scene c5), nextOid := 3\<rparr>"
  have init: "initializeAtmosphericSky alwaysCompletes c5 = updateAtmosphericSky alwaysCompletes c5'"
    by (simp add: initializeAtmosphericSky_def c5'_def c5 c0_def Let_def numeral_3_eq_3)
  have sky1: "updateAtmosphericSky alwaysCompletes c5' = Done exampleSunComposer"
    by (subst step_sky [where sk = "\<lparr>sky_oid = 2, uniforms = initialSkyUniforms\<rparr>"
          and gen = "\<lparr>renderTarget = None, cubeCameraPosition = None, disposedTargets = []\<rparr>"])
      (simp_all add: c5'_def c5 c0_def exampleSunComposer_def exampleComposer_def emptyScene_def
        sceneAdd_def initialEnvValues_def initialSkyUniforms_def generateEnvironmentMap_def
        Let_def skyboxEuler_def degToRad_def alwaysCompletes_def)
  have sky2: "updateAtmosphericSky alwaysCompletes exampleSunComposer = Done exampleSunComposer"
    by (subst step_sky [where sk = "\<lparr>sky_oid = 2, uniforms = initialSkyUniforms
              \<lparr>u_sunPosition := sunPositionVector initialSunValues\<rparr>\<rparr>"
          and gen = "\<lparr>renderTarget = Some 512, cubeCameraPosition = Some (0, 0, 0),
             disposedTargets = []\<rparr>"])
      (simp_all add: exampleSunComposer_def exampleComposer_def initialEnvValues_def
        initialSkyUniforms_def generateEnvironmentMap_def Let_def skyboxEuler_def degToRad_def
        alwaysCompletes_def)
  have sel: "selectSkybox alwaysCompletes exampleSunComposer = Done exampleSunComposer"
    using sky2 by (simp add: selectSkybox_def no_config exampleSunComposer_def exampleComposer_def)
  have sunv: "updateSunValues exampleSunComposer = exampleSunComposer"
    by (rule step_values) (simp add: exampleSunComposer_def exampleComposer_def)
  show ?thesis
    by (simp add: ctor init sky1 sel sunv)
qed

end
